theory Spec2Isabelle
  imports Complex_Main "HOL-Library.Multiset" "HOL-Library.Sublist" "HOL-Library.Log_Nat"
begin

section \<open>Numbers and record fields as JavaScript has them\<close>

text \<open>
  The reports are untyped JSON objects at run time: a numeric property of a record is
  either absent (reading it gives \<open>undefined\<close>) or a number, and arithmetic on
  \<open>undefined\<close> gives \<open>NaN\<close>. Finite numbers are rationals. The functions of the
  first sections compute with them exactly; the section on doubles repeats the merge
  with the result of every operation rounded to an IEEE double. The infinities are
  outside this model, and so are numeric fields that hold a JSON \<open>null\<close> or a string.
\<close>

datatype jsnum = Undefined | NaN | Num rat

text \<open>\<open>a + b\<close>, \<open>a - b\<close>, \<open>a * b\<close>, \<open>a / b\<close> on numbers or \<open>undefined\<close>.\<close>

fun js_add :: "jsnum \<Rightarrow> jsnum \<Rightarrow> jsnum" where
  "js_add (Num x) (Num y) = Num (x + y)"
| "js_add _ _ = NaN"

fun js_sub :: "jsnum \<Rightarrow> jsnum \<Rightarrow> jsnum" where
  "js_sub (Num x) (Num y) = Num (x - y)"
| "js_sub _ _ = NaN"

fun js_mul :: "jsnum \<Rightarrow> jsnum \<Rightarrow> jsnum" where
  "js_mul (Num x) (Num y) = Num (x * y)"
| "js_mul _ _ = NaN"

text \<open>
  Every division of the program is guarded by \<open>divisor > 0\<close>; the branch for a zero
  divisor is never reached and is written as \<open>NaN\<close>.
\<close>

fun js_div :: "jsnum \<Rightarrow> jsnum \<Rightarrow> jsnum" where
  "js_div (Num x) (Num y) = (if y = 0 then NaN else Num (x / y))"
| "js_div _ _ = NaN"

text \<open>\<open>a > b\<close> and \<open>a < b\<close>: false as soon as one side is not a number.\<close>

fun js_gt :: "jsnum \<Rightarrow> jsnum \<Rightarrow> bool" where
  "js_gt (Num x) (Num y) = (y < x)"
| "js_gt _ _ = False"

fun js_lt :: "jsnum \<Rightarrow> jsnum \<Rightarrow> bool" where
  "js_lt (Num x) (Num y) = (x < y)"
| "js_lt _ _ = False"

text \<open>\<open>x || 0\<close>: \<open>undefined\<close>, \<open>NaN\<close> and \<open>0\<close> are falsy.\<close>

fun js_or0 :: "jsnum \<Rightarrow> jsnum" where
  "js_or0 (Num x) = Num x"
| "js_or0 _ = Num 0"

text \<open>The rational a field counts for in a sum that reads it through \<open>x || 0\<close>.\<close>

fun num0 :: "jsnum \<Rightarrow> rat" where
  "num0 (Num x) = x"
| "num0 _ = 0"

fun is_num :: "jsnum \<Rightarrow> bool" where
  "is_num (Num x) = True"
| "is_num _ = False"

section \<open>Data model (types.ts, as used by App.tsx and Dashboard.tsx)\<close>

datatype Status = PROFITABLE | LOSS | BREAK_EVEN

text \<open>A property that the parsed object does not have is \<open>None\<close> or \<open>Undefined\<close>.\<close>

record CountryData =
  country :: "string option"
  cost :: jsnum
  revenue :: jsnum
  profit :: jsnum
  roi :: jsnum
  status :: "Status option"

record Summary =
  totalCost :: jsnum
  totalRevenue :: jsnum
  netProfit :: jsnum
  totalRoi :: jsnum

record AnalysisResult =
  summary :: "Summary option"
  details :: "CountryData list option"
  badCountries :: "string list option"
  recommendations :: "string list option"

record HistoryItem =
  item_id :: string
  timestamp :: nat
  item_result :: AnalysisResult

datatype AppState = UPLOAD | ANALYZING | RESULTS | ERROR | HISTORY

text \<open>
  The state of the App component that the import and history handlers touch;
  \<open>storage\<close> is the value kept under the key \<open>ad_arbitrage_history\<close>.
\<close>

record App =
  appState :: AppState
  result :: "AnalysisResult option"
  history :: "HistoryItem list"
  storage :: "HistoryItem list option"

text \<open>The three alerts of \<open>handleImportFile\<close>.\<close>

datatype alert = InvalidFormat | MergedOk | LoadFailed

section \<open>Ingestion: the repair steps of handleImportFile\<close>

text \<open>
  \<open>d.reduce((acc, curr) => acc + (curr.cost || 0), 0)\<close> and the summary built from it
  when the imported object has none.
\<close>

definition synthesize_summary :: "CountryData list \<Rightarrow> Summary" where
  "synthesize_summary d =
     (let tc = fold (\<lambda>curr acc. js_add acc (js_or0 (cost curr))) d (Num 0);
          tr = fold (\<lambda>curr acc. js_add acc (js_or0 (revenue curr))) d (Num 0);
          np = js_sub tr tc;
          r = (if js_gt tc (Num 0) then js_mul (js_div np tc) (Num 100) else Num 0)
      in \<lparr>totalCost = tc, totalRevenue = tr, netProfit = np, totalRoi = r\<rparr>)"

text \<open>
  Lines 129 to 153: \<open>None\<close> is the early return after the alert
  "Invalid file format"; otherwise the optional fields are filled in.
\<close>

definition ingest :: "AnalysisResult option \<Rightarrow> AnalysisResult option" where
  "ingest importedData =
     (case importedData of
        None \<Rightarrow> None
      | Some p \<Rightarrow>
          (case details p of
             None \<Rightarrow> None
           | Some d \<Rightarrow>
               (let p1 = (if badCountries p = None then p\<lparr>badCountries := Some []\<rparr> else p);
                    p2 = (if recommendations p1 = None
                          then p1\<lparr>recommendations := Some []\<rparr> else p1);
                    p3 = (if summary p2 = None
                          then p2\<lparr>summary := Some (synthesize_summary d)\<rparr> else p2)
                in Some p3)))"

section \<open>Merge: the branch of handleImportFile taken when a result exists\<close>

text \<open>
  A JavaScript \<open>Map\<close> keeps its keys in first-insertion order: \<open>set\<close> on a key
  that is present replaces the value where it stands, on a new key it appends.
\<close>

type_synonym details_map = "(string option \<times> CountryData) list"

fun map_set :: "'k \<Rightarrow> 'v \<Rightarrow> ('k \<times> 'v) list \<Rightarrow> ('k \<times> 'v) list" where
  "map_set k v [] = [(k, v)]"
| "map_set k v ((k', v') # m) =
     (if k' = k then (k', v) # m else (k', v') # map_set k v m)"

text \<open>The body of the branch \<open>mergedDetailsMap.has(newItem.country)\<close>.\<close>

definition accumulate :: "CountryData \<Rightarrow> CountryData \<Rightarrow> CountryData" where
  "accumulate existing newItem =
     (let c = js_add (cost existing) (cost newItem);
          r = js_add (revenue existing) (revenue newItem);
          p = js_sub r c;
          ro = (if js_gt c (Num 0) then js_mul (js_div p c) (Num 100) else Num 0);
          s = (if js_gt p (Num 0) then PROFITABLE
               else if js_lt p (Num (- (1 / 2))) then LOSS else BREAK_EVEN)
      in existing\<lparr>cost := c, revenue := r, profit := p, roi := ro, status := Some s\<rparr>)"

definition merge_item :: "CountryData \<Rightarrow> details_map \<Rightarrow> details_map" where
  "merge_item newItem m =
     (case map_of m (country newItem) of
        Some existing \<Rightarrow> map_set (country newItem) (accumulate existing newItem) m
      | None \<Rightarrow> map_set (country newItem) newItem m)"

text \<open>Step 1, \<open>result.details.forEach(item => map.set(item.country, {...item}))\<close>.\<close>

definition insert_all :: "CountryData list \<Rightarrow> details_map \<Rightarrow> details_map" where
  "insert_all base m = fold (\<lambda>item. map_set (country item) item) base m"

text \<open>Step 2 over the imported details, then \<open>Array.from(map.values())\<close>.\<close>

definition merge_details :: "CountryData list \<Rightarrow> CountryData list \<Rightarrow> CountryData list" where
  "merge_details base incoming = map snd (fold merge_item incoming (insert_all base []))"

text \<open>Lines 177 to 180: the summary of the merged details (no \<open>|| 0\<close> here).\<close>

definition aggregate :: "CountryData list \<Rightarrow> Summary" where
  "aggregate mergedDetails =
     (let tc = fold (\<lambda>i s. js_add s (cost i)) mergedDetails (Num 0);
          tr = fold (\<lambda>i s. js_add s (revenue i)) mergedDetails (Num 0);
          np = js_sub tr tc;
          r = (if js_gt tc (Num 0) then js_mul (js_div np tc) (Num 100) else Num 0)
      in \<lparr>totalCost = tc, totalRevenue = tr, netProfit = np, totalRoi = r\<rparr>)"

text \<open>\<open>Array.from(new Set(xs))\<close>: the first occurrence of each element, in order.\<close>

fun unique_from :: "'a list \<Rightarrow> 'a list \<Rightarrow> 'a list" where
  "unique_from seen [] = []"
| "unique_from seen (x # xs) =
     (if x \<in> set seen then unique_from seen xs else x # unique_from (x # seen) xs)"

definition array_from_set :: "'a list \<Rightarrow> 'a list" where
  "array_from_set xs = unique_from [] xs"

text \<open>
  Lines 157 to 190. Reading \<open>details\<close>, \<open>badCountries\<close> or \<open>recommendations\<close> of a
  current result that lacks them throws a TypeError, which the handler catches:
  that is \<open>None\<close>. The imported object has passed \<open>ingest\<close>, so its details exist;
  its advisory lists are read through \<open>|| []\<close>.
\<close>

definition merge_results :: "AnalysisResult \<Rightarrow> AnalysisResult \<Rightarrow> AnalysisResult option" where
  "merge_results current importedData =
     (case (details current, details importedData,
            badCountries current, recommendations current) of
        (Some bd, Some nd, Some bb, Some br) \<Rightarrow>
          (let mergedDetails = merge_details bd nd in
           Some \<lparr>summary = Some (aggregate mergedDetails),
                 details = Some mergedDetails,
                 badCountries = Some (array_from_set
                    (bb @ (case badCountries importedData of Some l \<Rightarrow> l | None \<Rightarrow> []))),
                 recommendations = Some (array_from_set
                    (br @ (case recommendations importedData of Some l \<Rightarrow> l | None \<Rightarrow> [])))\<rparr>)
      | _ \<Rightarrow> None)"

text \<open>
  Lines 129 to 205, after the text has been parsed: the new state of the component and
  the alert shown, if any.
\<close>

definition install :: "AnalysisResult option \<Rightarrow> App \<Rightarrow> App \<times> alert option" where
  "install importedData st =
     (case ingest importedData of
        None \<Rightarrow> (st, Some InvalidFormat)
      | Some imp \<Rightarrow>
          (case result st of
             Some current \<Rightarrow>
               (case merge_results current imp of
                  Some merged \<Rightarrow> (st\<lparr>result := Some merged\<rparr>, Some MergedOk)
                | None \<Rightarrow> (st, Some LoadFailed))
           | None \<Rightarrow> (st\<lparr>result := Some imp, appState := RESULTS\<rparr>, None)))"

section \<open>History (App.tsx)\<close>

text \<open>
  \<open>deleteHistoryItem\<close>: the filtered list becomes the state and is written to the
  storage key as a whole.
\<close>

definition deleteHistoryItem :: "string \<Rightarrow> App \<Rightarrow> App" where
  "deleteHistoryItem ident st =
     (let updatedHistory = filter (\<lambda>item. item_id item \<noteq> ident) (history st)
      in st\<lparr>history := updatedHistory, storage := Some updatedHistory\<rparr>)"

section \<open>The visibility filter (Dashboard.tsx)\<close>

text \<open>
  The component receives the canonical result as the property \<open>data\<close> and owns the
  list of hidden countries.
\<close>

record Dashboard =
  data :: AnalysisResult
  hiddenCountries :: "string option list"

definition details_of :: "Dashboard \<Rightarrow> CountryData list" where
  "details_of s = (case details (data s) of Some d \<Rightarrow> d | None \<Rightarrow> [])"

definition badCountries_of :: "Dashboard \<Rightarrow> string list" where
  "badCountries_of s = (case badCountries (data s) of Some l \<Rightarrow> l | None \<Rightarrow> [])"

definition recommendations_of :: "Dashboard \<Rightarrow> string list" where
  "recommendations_of s = (case recommendations (data s) of Some l \<Rightarrow> l | None \<Rightarrow> [])"

definition zero_summary :: Summary where
  "zero_summary = \<lparr>totalCost = Num 0, totalRevenue = Num 0, netProfit = Num 0, totalRoi = Num 0\<rparr>"

definition visibleData :: "Dashboard \<Rightarrow> CountryData list" where
  "visibleData s = filter (\<lambda>d. country d \<notin> set (hiddenCountries s)) (details_of s)"

text \<open>The memoised \<open>summary\<close> of the component (lines 25 to 37).\<close>

definition summary_shown :: "Dashboard \<Rightarrow> Summary" where
  "summary_shown s =
     (let rawSummary = (case summary (data s) of Some x \<Rightarrow> x | None \<Rightarrow> zero_summary)
      in if length (hiddenCountries s) = 0 then rawSummary
         else
           (let tc = fold (\<lambda>item acc. js_add acc (js_or0 (cost item))) (visibleData s) (Num 0);
                tr = fold (\<lambda>item acc. js_add acc (js_or0 (revenue item))) (visibleData s) (Num 0);
                np = js_sub tr tc;
                r = (if js_gt tc (Num 0)
                     then js_mul (js_div (js_sub tr tc) tc) (Num 100) else Num 0)
            in \<lparr>totalCost = tc, totalRevenue = tr, netProfit = np, totalRoi = r\<rparr>))"

definition toggleVisibility :: "string option \<Rightarrow> Dashboard \<Rightarrow> Dashboard" where
  "toggleVisibility c s =
     s\<lparr>hiddenCountries :=
         (if c \<in> set (hiddenCountries s)
          then filter (\<lambda>x. x \<noteq> c) (hiddenCountries s)
          else hiddenCountries s @ [c])\<rparr>"

text \<open>The "Show All" button: \<open>setHiddenCountries([])\<close>.\<close>

definition showAll :: "Dashboard \<Rightarrow> Dashboard" where
  "showAll s = s\<lparr>hiddenCountries := []\<rparr>"

definition visibleBadCountries :: "Dashboard \<Rightarrow> string list" where
  "visibleBadCountries s =
     filter (\<lambda>c. Some c \<notin> set (hiddenCountries s)) (badCountries_of s)"

section \<open>Sample reports\<close>

text \<open>The legacy report of the specification: one record, no summary.\<close>

definition legacy_india :: AnalysisResult where
  "legacy_india =
     \<lparr>summary = None,
      details = Some [\<lparr>country = Some ''India'', cost = Num 100, revenue = Num 150,
                       profit = Undefined, roi = Undefined, status = None\<rparr>],
      badCountries = Some [], recommendations = Some []\<rparr>"

text \<open>A dashboard over three countries, none hidden yet.\<close>

definition three_countries :: Dashboard where
  "three_countries =
     \<lparr>data =
        \<lparr>summary = Some \<lparr>totalCost = Num 60, totalRevenue = Num 90, netProfit = Num 30,
                          totalRoi = Num 50\<rparr>,
         details = Some
           [\<lparr>country = Some ''India'', cost = Num 10, revenue = Num 40, profit = Num 30,
             roi = Num 300, status = Some PROFITABLE\<rparr>,
            \<lparr>country = Some ''Brazil'', cost = Num 20, revenue = Num 20, profit = Num 0,
             roi = Num 0, status = Some BREAK_EVEN\<rparr>,
            \<lparr>country = Some ''Kenya'', cost = Num 30, revenue = Num 30, profit = Num 0,
             roi = Num 0, status = Some BREAK_EVEN\<rparr>],
         badCountries = Some [''India'', ''Kenya''],
         recommendations = Some []\<rparr>,
      hiddenCountries = []\<rparr>"

text \<open>An App state whose history holds two entries.\<close>

definition history_two :: App where
  "history_two =
     \<lparr>appState = HISTORY, result = None,
      history =
        [\<lparr>item_id = ''a1'', timestamp = 2,
          item_result = \<lparr>summary = None, details = Some [], badCountries = None,
                         recommendations = None\<rparr>\<rparr>,
         \<lparr>item_id = ''b2'', timestamp = 1,
          item_result = \<lparr>summary = None, details = Some [], badCountries = None,
                         recommendations = None\<rparr>\<rparr>],
      storage = None\<rparr>"

section \<open>Details read as a mapping from country to record\<close>

text \<open>
  The view in which the merge claims are stated: the record a details list holds for a
  country, and the invariant of the merge map that each key is its record's country.
\<close>

definition by_country :: "CountryData list \<Rightarrow> string option \<Rightarrow> CountryData option" where
  "by_country ds = map_of (map (\<lambda>d. (country d, d)) ds)"

definition keyed :: "details_map \<Rightarrow> bool" where
  "keyed m = (\<forall>(k, v) \<in> set m. country v = k)"

text \<open>The merge example of the specification.\<close>

definition base_report :: AnalysisResult where
  "base_report =
     \<lparr>summary = Some \<lparr>totalCost = Num 100, totalRevenue = Num 150, netProfit = Num 50,
                       totalRoi = Num 50\<rparr>,
      details = Some [\<lparr>country = Some ''India'', cost = Num 100, revenue = Num 150,
                       profit = Num 50, roi = Num 50, status = Some PROFITABLE\<rparr>],
      badCountries = Some [], recommendations = Some [''Scale India'']\<rparr>"


definition third_report :: AnalysisResult where
  "third_report =
     \<lparr>summary = None,
      details = Some [\<lparr>country = Some ''Brazil'', cost = Num 1, revenue = Num 9,
                       profit = Num 8, roi = Num 800, status = Some PROFITABLE\<rparr>,
                      \<lparr>country = Some ''Kenya'', cost = Num 4, revenue = Num 4,
                       profit = Num 0, roi = Num 0, status = Some BREAK_EVEN\<rparr>],
      badCountries = Some [], recommendations = Some []\<rparr>"

section \<open>Export and import of report files\<close>

text \<open>
  Texts are lists of characters. \<open>JSON.stringify\<close> and \<open>JSON.parse\<close> belong to
  the platform and are parameters of the functions that call them: \<open>parse text\<close> is
  \<open>None\<close> when \<open>JSON.parse\<close> throws, \<open>Some None\<close> when it gives a value without
  properties and \<open>Some (Some p)\<close> when it gives the object \<open>p\<close>.
\<close>

type_synonym json_parse = "string \<Rightarrow> AnalysisResult option option"

text \<open>\<open>name.endsWith(sfx)\<close>.\<close>

definition ends_with :: "string \<Rightarrow> string \<Rightarrow> bool" where
  "ends_with sfx name =
     (length sfx \<le> length name \<and> drop (length name - length sfx) name = sfx)"

text \<open>
  The pattern \<open>/const DATA = ({.*?});/s\<close>: the leftmost place where the literal
  \<open>const DATA = {\<close> stands, then the shortest run of characters, line breaks
  included, up to the first \<open>};\<close>. The captured group is the text from the brace to
  the brace. Where no \<open>};\<close> follows the first literal none follows a later one, and
  the match fails.
\<close>

fun strip_prefix :: "string \<Rightarrow> string \<Rightarrow> string option" where
  "strip_prefix [] s = Some s"
| "strip_prefix (p # ps) [] = None"
| "strip_prefix (p # ps) (c # cs) = (if p = c then strip_prefix ps cs else None)"

fun find_after :: "string \<Rightarrow> string \<Rightarrow> string option" where
  "find_after pat [] = strip_prefix pat []"
| "find_after pat (c # cs) =
     (case strip_prefix pat (c # cs) of
        Some rest \<Rightarrow> Some rest
      | None \<Rightarrow> find_after pat cs)"

fun take_until :: "string \<Rightarrow> string \<Rightarrow> string option" where
  "take_until pat [] =
     (case strip_prefix pat [] of Some rest \<Rightarrow> Some [] | None \<Rightarrow> None)"
| "take_until pat (c # cs) =
     (case strip_prefix pat (c # cs) of
        Some rest \<Rightarrow> Some []
      | None \<Rightarrow> map_option ((#) c) (take_until pat cs))"

definition match_DATA :: "string \<Rightarrow> string option" where
  "match_DATA text =
     (case find_after ''const DATA = {'' text of
        None \<Rightarrow> None
      | Some rest \<Rightarrow>
          (case take_until ''};'' rest of
             None \<Rightarrow> None
           | Some body \<Rightarrow> Some (''{'' @ body @ ''}'')))"

text \<open>
  Lines 112 to 206 of App.tsx: the file is read, parsed according to its extension and
  handed to the rest of the handler. An exception of \<open>JSON.parse\<close> is caught: the
  state stays and the alert "Failed to load report" is shown.
\<close>

definition handleImportFile :: "json_parse \<Rightarrow> string \<Rightarrow> string \<Rightarrow> App \<Rightarrow> App \<times> alert option" where
  "handleImportFile parse name text st =
     (if ends_with ''.json'' name then
        (case parse text of
           None \<Rightarrow> (st, Some LoadFailed)
         | Some importedData \<Rightarrow> install importedData st)
      else if ends_with ''.html'' name then
        (case match_DATA text of
           None \<Rightarrow> install None st
         | Some m \<Rightarrow>
             (case parse m of
                None \<Rightarrow> (st, Some LoadFailed)
              | Some importedData \<Rightarrow> install importedData st))
      else install None st)"

text \<open>\<open>handleDownloadJson\<close>: the file holds \<open>JSON.stringify(data, null, 2)\<close>.\<close>

definition handleDownloadJson :: "(AnalysisResult \<Rightarrow> string) \<Rightarrow> Dashboard \<Rightarrow> string" where
  "handleDownloadJson stringify s = stringify (data s)"

text \<open>
  \<open>handleDownloadHtml\<close>: the object handed to \<open>JSON.stringify\<close>, without its
  \<open>generatedAt\<close> string, and the template around the payload. The template is the
  source's, line by line; the one character outside ASCII is written as its three
  UTF-8 bytes.
\<close>

definition html_payload :: "Dashboard \<Rightarrow> AnalysisResult" where
  "html_payload s =
     \<lparr>summary = Some (case summary (data s) of Some x \<Rightarrow> x | None \<Rightarrow> zero_summary),
      details = Some (details_of s),
      badCountries = Some (badCountries_of s),
      recommendations = Some (recommendations_of s)\<rparr>"

definition html_head_lines :: "string list" where
  "html_head_lines = [
    ''<!DOCTYPE html>\<newline>'',
    ''<html lang=\"en\">\<newline>'',
    ''<head>\<newline>'',
    ''    <meta charset=\"UTF-8\">\<newline>'',
    ''    <meta name=\"viewport\" content=\"width=device-width, initial-scale=1.0\">\<newline>'',
    ''    <title>AdArbitrage Interactive Report</title>\<newline>'',
    ''    <script src=\"https://cdn.tailwindcss.com\"></script>\<newline>'',
    ''    <link href=\"https://fonts.googleapis.com/css2?family=Inter:wght@300;400;500;600;700&display=swap\" rel=\"stylesheet\">\<newline>'',
    ''    <style>\<newline>'',
    ''        body { background-color: #0f172a; color: #e2e8f0; font-family: 'Inter', sans-serif; }\<newline>'',
    ''        .profit-pos { color: #10b981; }\<newline>'',
    ''        .profit-neg { color: #ef4444; }\<newline>'',
    ''        .hidden { display: none !important; }\<newline>'',
    ''        ::-webkit-scrollbar { width: 8px; height: 8px; }\<newline>'',
    ''        ::-webkit-scrollbar-track { background: #1e293b; }\<newline>'',
    ''        ::-webkit-scrollbar-thumb { background: #475569; border-radius: 4px; }\<newline>'',
    ''    </style>\<newline>'',
    ''</head>\<newline>'',
    ''<body class=\"p-8 max-w-6xl mx-auto\">\<newline>'',
    ''    <div class=\"mb-8 border-b border-slate-700 pb-4 flex justify-between items-end\">\<newline>'',
    ''        <div>\<newline>'',
    ''            <h1 class=\"text-3xl font-bold text-white\">Analysis Report</h1>\<newline>'',
    ''            <p class=\"text-slate-400 mt-1\" id=\"date-label\">Generated on...</p>\<newline>'',
    ''        </div>\<newline>'',
    ''        <div class=\"text-right text-xs text-slate-500\">AdArbitrage AI (Offline Mode)</div>\<newline>'',
    ''    </div>\<newline>'',
    ''    <div id=\"hidden-banner\" class=\"hidden mb-6 bg-slate-800 border border-slate-600 rounded-lg p-3 flex flex-wrap items-center gap-2\">\<newline>'',
    ''        <span class=\"text-slate-400 text-sm mr-2\">Hidden Countries:</span>\<newline>'',
    ''        <div id=\"hidden-chips\" class=\"flex flex-wrap gap-2\"></div>\<newline>'',
    ''        <button onclick=\"app.showAll()\" class=\"text-xs text-indigo-400 hover:text-indigo-300 ml-auto font-medium cursor-pointer\">Show All</button>\<newline>'',
    ''    </div>\<newline>'',
    ''    <div class=\"grid grid-cols-2 md:grid-cols-4 gap-4 mb-8\">\<newline>'',
    ''        <div class=\"bg-slate-800 p-6 rounded-xl border border-slate-700\">\<newline>'',
    ''            <p class=\"text-slate-400 text-xs uppercase tracking-wider\">Total Cost</p>\<newline>'',
    ''            <p class=\"text-2xl font-bold text-red-400\" id=\"sum-cost\">...</p>\<newline>'',
    ''        </div>\<newline>'',
    ''        <div class=\"bg-slate-800 p-6 rounded-xl border border-slate-700\">\<newline>'',
    ''            <p class=\"text-slate-400 text-xs uppercase tracking-wider\">Total Revenue</p>\<newline>'',
    ''            <p class=\"text-2xl font-bold text-emerald-400\" id=\"sum-rev\">...</p>\<newline>'',
    ''        </div>\<newline>'',
    ''        <div class=\"bg-slate-800 p-6 rounded-xl border border-slate-700\">\<newline>'',
    ''            <p class=\"text-slate-400 text-xs uppercase tracking-wider\">Net Profit</p>\<newline>'',
    ''            <p class=\"text-2xl font-bold\" id=\"sum-profit\">...</p>\<newline>'',
    ''        </div>\<newline>'',
    ''        <div class=\"bg-slate-800 p-6 rounded-xl border border-slate-700\">\<newline>'',
    ''            <p class=\"text-slate-400 text-xs uppercase tracking-wider\">Total ROI</p>\<newline>'',
    ''            <p class=\"text-2xl font-bold\" id=\"sum-roi\">...</p>\<newline>'',
    ''        </div>\<newline>'',
    ''    </div>\<newline>'',
    ''    <div class=\"grid md:grid-cols-2 gap-6 mb-8\">\<newline>'',
    ''        <div class=\"bg-slate-800 p-6 rounded-xl border border-slate-700\">\<newline>'',
    ''            <h3 class=\"font-bold text-white mb-4 flex items-center gap-2 text-lg\">\<newline>'',
    ''                <span class=\"text-red-500\">'' @ [CHR 0xE2, CHR 0x9A, CHR 0xA0] @ ''</span> Bad Countries (Block List)\<newline>'',
    ''            </h3>\<newline>'',
    ''            <div id=\"bad-countries-list\" class=\"flex flex-wrap gap-2\"></div>\<newline>'',
    ''        </div>\<newline>'',
    ''        <div class=\"bg-slate-800 p-6 rounded-xl border border-slate-700\">\<newline>'',
    ''            <h3 class=\"font-bold text-white mb-4 text-lg\">Recommendations</h3>\<newline>'',
    ''            <ul id=\"rec-list\" class=\"list-disc list-inside text-sm text-slate-300 space-y-2\"></ul>\<newline>'',
    ''        </div>\<newline>'',
    ''    </div>\<newline>'',
    ''    <div class=\"bg-slate-800 rounded-xl border border-slate-700 overflow-hidden\">\<newline>'',
    ''        <div class=\"p-4 border-b border-slate-700 bg-slate-900/50 flex justify-between\">\<newline>'',
    ''            <h3 class=\"font-semibold text-white\">Detailed Breakdown</h3>\<newline>'',
    ''            <span class=\"text-xs text-slate-400\" id=\"row-count\"></span>\<newline>'',
    ''        </div>\<newline>'',
    ''        <table class=\"w-full text-left text-sm text-slate-400\">\<newline>'',
    ''            <thead class=\"bg-slate-900 text-slate-200 uppercase font-medium\">\<newline>'',
    ''                <tr>\<newline>'',
    ''                    <th class=\"px-6 py-3\">Country</th>\<newline>'',
    ''                    <th class=\"px-6 py-3\">Cost</th>\<newline>'',
    ''                    <th class=\"px-6 py-3\">Revenue</th>\<newline>'',
    ''                    <th class=\"px-6 py-3\">Profit</th>\<newline>'',
    ''                    <th class=\"px-6 py-3\">ROI</th>\<newline>'',
    ''                    <th class=\"px-6 py-3\">Status</th>\<newline>'',
    ''                    <th class=\"px-6 py-3 text-right\">Actions</th>\<newline>'',
    ''                </tr>\<newline>'',
    ''            </thead>\<newline>'',
    ''            <tbody id=\"table-body\" class=\"divide-y divide-slate-700\"></tbody>\<newline>'',
    ''        </table>\<newline>'',
    ''    </div>\<newline>'',
    ''    <script>\<newline>'']"

definition html_tail_lines :: "string list" where
  "html_tail_lines = [
    ''        const app = {\<newline>'',
    ''            hidden: [],\<newline>'',
    ''            init: function() {\<newline>'',
    ''                document.getElementById('date-label').textContent = 'Generated on ' + DATA.generatedAt;\<newline>'',
    ''                const recList = document.getElementById('rec-list');\<newline>'',
    ''                (DATA.recommendations || []).forEach(r => {\<newline>'',
    ''                    const li = document.createElement('li');\<newline>'',
    ''                    li.textContent = r;\<newline>'',
    ''                    recList.appendChild(li);\<newline>'',
    ''                });\<newline>'',
    ''                this.render();\<newline>'',
    ''            },\<newline>'',
    ''            formatMoney: function(n) { return '$' + (n || 0).toFixed(2); },\<newline>'',
    ''            render: function() {\<newline>'',
    ''                const visible = (DATA.details || []).filter(d => !this.hidden.includes(d.country));\<newline>'',
    ''                const tCost = visible.reduce((s, i) => s + (i.cost || 0), 0);\<newline>'',
    ''                const tRev = visible.reduce((s, i) => s + (i.revenue || 0), 0);\<newline>'',
    ''                const profit = tRev - tCost;\<newline>'',
    ''                const roi = tCost > 0 ? (profit / tCost) * 100 : 0;\<newline>'',
    ''                document.getElementById('sum-cost').textContent = this.formatMoney(tCost);\<newline>'',
    ''                document.getElementById('sum-rev').textContent = this.formatMoney(tRev);\<newline>'',
    ''                const pEl = document.getElementById('sum-profit');\<newline>'',
    ''                pEl.textContent = this.formatMoney(profit);\<newline>'',
    ''                pEl.className = 'text-2xl font-bold ' + (profit >= 0 ? 'profit-pos' : 'profit-neg');\<newline>'',
    ''                const rEl = document.getElementById('sum-roi');\<newline>'',
    ''                rEl.textContent = roi.toFixed(1) + '%';\<newline>'',
    ''                rEl.className = 'text-2xl font-bold ' + (roi >= 0 ? 'profit-pos' : 'profit-neg');\<newline>'',
    ''                const banner = document.getElementById('hidden-banner');\<newline>'',
    ''                const chips = document.getElementById('hidden-chips');\<newline>'',
    ''                chips.innerHTML = '' @ [CHR 0x27] @ [CHR 0x27] @ '';\<newline>'',
    ''                if (this.hidden.length > 0) {\<newline>'',
    ''                    banner.classList.remove('hidden');\<newline>'',
    ''                    this.hidden.forEach(c => {\<newline>'',
    ''                        const btn = document.createElement('button');\<newline>'',
    ''                        btn.className = 'bg-slate-700 hover:bg-slate-600 text-white text-xs px-2 py-1 rounded flex items-center gap-1 transition-colors cursor-pointer';\<newline>'',
    ''                        btn.innerHTML = c + ' &times;';\<newline>'',
    ''                        btn.onclick = () => this.toggle(c);\<newline>'',
    ''                        chips.appendChild(btn);\<newline>'',
    ''                    });\<newline>'',
    ''                } else {\<newline>'',
    ''                    banner.classList.add('hidden');\<newline>'',
    ''                }\<newline>'',
    ''                const badContainer = document.getElementById('bad-countries-list');\<newline>'',
    ''                badContainer.innerHTML = '' @ [CHR 0x27] @ [CHR 0x27] @ '';\<newline>'',
    ''                const visibleBad = (DATA.badCountries || []).filter(c => !this.hidden.includes(c));\<newline>'',
    ''                if (visibleBad.length) {\<newline>'',
    ''                    visibleBad.forEach(c => {\<newline>'',
    ''                        const s = document.createElement('span');\<newline>'',
    ''                        s.className = 'px-2 py-1 bg-red-900/50 border border-red-500/30 text-red-200 text-sm font-bold rounded';\<newline>'',
    ''                        s.textContent = c;\<newline>'',
    ''                        badContainer.appendChild(s);\<newline>'',
    ''                    });\<newline>'',
    ''                } else {\<newline>'',
    ''                    badContainer.innerHTML = '<span class=\"text-slate-500 text-sm\">No significant losses in visible data.</span>';\<newline>'',
    ''                }\<newline>'',
    ''                document.getElementById('row-count').textContent = 'Showing ' + visible.length + ' entries';\<newline>'',
    ''                const tbody = document.getElementById('table-body');\<newline>'',
    ''                tbody.innerHTML = visible.map(row => {\<newline>'',
    ''                    const statusClass = row.status === 'PROFITABLE' ? 'bg-emerald-900 text-emerald-300' :\<newline>'',
    ''                                      row.status === 'LOSS' ? 'bg-red-900 text-red-300' : 'bg-yellow-900 text-yellow-300';\<newline>'',
    ''                    const profitClass = row.profit >= 0 ? 'profit-pos' : 'profit-neg';\<newline>'',
    ''                    const roiClass = row.roi >= 0 ? 'profit-pos' : 'profit-neg';\<newline>'',
    ''                    return `\<newline>'',
    ''                    <tr class=\"hover:bg-slate-700/50\">\<newline>'',
    ''                        <td class=\"px-6 py-4 font-medium text-white\">${row.country}</td>\<newline>'',
    ''                        <td class=\"px-6 py-4\">${this.formatMoney(row.cost)}</td>\<newline>'',
    ''                        <td class=\"px-6 py-4\">${this.formatMoney(row.revenue)}</td>\<newline>'',
    ''                        <td class=\"px-6 py-4 font-bold ${profitClass}\">${this.formatMoney(row.profit)}</td>\<newline>'',
    ''                        <td class=\"px-6 py-4 ${roiClass}\">${(row.roi || 0).toFixed(1)}%</td>\<newline>'',
    ''                        <td class=\"px-6 py-4\"><span class=\"px-2 py-1 rounded text-xs font-bold ${statusClass}\">${row.status}</span></td>\<newline>'',
    ''                        <td class=\"px-6 py-4 text-right\">\<newline>'',
    ''                             <button onclick=\"app.toggle('${row.country}')\" class=\"text-slate-500 hover:text-red-400 cursor-pointer\" title=\"Hide\">\<newline>'',
    ''                                <svg class=\"w-5 h-5\" fill=\"none\" stroke=\"currentColor\" viewBox=\"0 0 24 24\"><path stroke-linecap=\"round\" stroke-linejoin=\"round\" stroke-width=\"2\" d=\"M13.875 18.825A10.05 10.05 0 0112 19c-4.478 0-8.268-2.943-9.543-7a9.97 9.97 0 011.563-3.029m5.858.908a3 3 0 114.243 4.243M9.878 9.878l4.242 4.242M9.88 9.88l-3.29-3.29m7.532 7.532l3.29 3.29M3 3l3.59 3.59m0 0A9.953 9.953 0 0112 5c4.478 0 8.268 2.943 9.543 7a10.025 10.025 0 01-4.132 5.411m0 0L21 21\" /></svg>\<newline>'',
    ''                             </button>\<newline>'',
    ''                        </td>\<newline>'',
    ''                    </tr>`;\<newline>'',
    ''                }).join('' @ [CHR 0x27] @ [CHR 0x27] @ '');\<newline>'',
    ''            },\<newline>'',
    ''            toggle: function(country) {\<newline>'',
    ''                if (this.hidden.includes(country)) {\<newline>'',
    ''                    this.hidden = this.hidden.filter(c => c !== country);\<newline>'',
    ''                } else {\<newline>'',
    ''                    this.hidden.push(country);\<newline>'',
    ''                }\<newline>'',
    ''                this.render();\<newline>'',
    ''            },\<newline>'',
    ''            showAll: function() {\<newline>'',
    ''                this.hidden = [];\<newline>'',
    ''                this.render();\<newline>'',
    ''            }\<newline>'',
    ''        };\<newline>'',
    ''        app.init();\<newline>'',
    ''    </script>\<newline>'',
    ''</body>\<newline>'',
    ''</html>'']"

definition html_document :: "string \<Rightarrow> string" where
  "html_document jsonPayload =
     concat html_head_lines @ ''        const DATA = '' @ jsonPayload @ '';\<newline>'' @
     concat html_tail_lines"

definition handleDownloadHtml :: "(AnalysisResult \<Rightarrow> string \<Rightarrow> string) \<Rightarrow> string \<Rightarrow> Dashboard \<Rightarrow> string" where
  "handleDownloadHtml stringify generatedAt s =
     html_document (stringify (html_payload s) generatedAt)"

text \<open>The conditions under which the search for a literal may skip a whole line.\<close>

definition line_without :: "string \<Rightarrow> string \<Rightarrow> bool" where
  "line_without pat l = (l \<noteq> [] \<and> last l = CHR 0x0A \<and> find_after pat l = None)"

section \<open>Further vocabulary and sample states\<close>

text \<open>A record whose cost and revenue are numbers that are not negative.\<close>

definition nonneg_money :: "CountryData \<Rightarrow> bool" where
  "nonneg_money d =
     (is_num (cost d) \<and> 0 \<le> num0 (cost d) \<and> is_num (revenue d) \<and> 0 \<le> num0 (revenue d))"

text \<open>The countries of the details of a result, in order.\<close>

definition countries_of :: "AnalysisResult option \<Rightarrow> string option list" where
  "countries_of r =
     (case r of
        None \<Rightarrow> []
      | Some x \<Rightarrow> (case details x of None \<Rightarrow> [] | Some d \<Rightarrow> map country d))"

text \<open>
  A fresh session; a report whose summary disagrees with its details; a report whose
  records have an empty, a blank and no country; a report with a negative cost and no
  revenue.
\<close>

definition fresh_app :: App where
  "fresh_app = \<lparr>appState = UPLOAD, result = None, history = [], storage = None\<rparr>"

definition stale_report :: AnalysisResult where
  "stale_report =
     \<lparr>summary = Some \<lparr>totalCost = Num 999, totalRevenue = Num 0, netProfit = Num (- 999),
                       totalRoi = Num (- 100)\<rparr>,
      details = Some [\<lparr>country = Some ''India'', cost = Num 100, revenue = Num 150,
                       profit = Num 50, roi = Num 50, status = Some PROFITABLE\<rparr>],
      badCountries = Some [], recommendations = Some []\<rparr>"

definition anonymous_report :: AnalysisResult where
  "anonymous_report =
     \<lparr>summary = None,
      details = Some [\<lparr>country = Some [], cost = Num 1, revenue = Num 2,
                       profit = Num 1, roi = Num 100, status = Some PROFITABLE\<rparr>,
                      \<lparr>country = Some ''  '', cost = Num 3, revenue = Num 3,
                       profit = Num 0, roi = Num 0, status = Some BREAK_EVEN\<rparr>,
                      \<lparr>country = None, cost = Num 5, revenue = Num 4,
                       profit = Num (- 1), roi = Num (- 20), status = Some LOSS\<rparr>],
      badCountries = None, recommendations = None\<rparr>"

definition debit_report :: AnalysisResult where
  "debit_report =
     \<lparr>summary = None,
      details = Some [\<lparr>country = Some ''India'', cost = Num (- 5), revenue = Undefined,
                       profit = Undefined, roi = Undefined, status = None\<rparr>],
      badCountries = Some [], recommendations = Some []\<rparr>"

text \<open>
  A report whose recommendation holds a closing brace followed by a semicolon, the text
  \<open>JSON.stringify\<close> gives for the object that the HTML export builds from it, and
  the part of that text up to the first \<open>};\<close>.
\<close>

definition brace_report :: AnalysisResult where
  "brace_report =
     \<lparr>summary = Some \<lparr>totalCost = Num 100, totalRevenue = Num 150, netProfit = Num 50,
                       totalRoi = Num 50\<rparr>,
      details = Some [\<lparr>country = Some ''India'', cost = Num 100, revenue = Num 150,
                       profit = Num 50, roi = Num 50, status = Some PROFITABLE\<rparr>],
      badCountries = Some [],
      recommendations = Some [''Block zones {123, 456}; raise bids in India'']\<rparr>"

definition brace_payload_text :: string where
  "brace_payload_text =
     ''{\"details\":[{\"country\":\"India\",\"cost\":100,\"revenue\":150,\"profit\":50,'' @
     ''\"roi\":50,\"status\":\"PROFITABLE\"}],\"badCountries\":[],'' @
     ''\"recommendations\":[\"Block zones {123, 456}; raise bids in India\"],'' @
     ''\"summary\":{\"totalCost\":100,\"totalRevenue\":150,\"netProfit\":50,\"totalRoi\":50},'' @
     ''\"generatedAt\":\"11/3/2026, 7:23:00 AM\"}''"

definition brace_captured_text :: string where
  "brace_captured_text =
     ''{\"details\":[{\"country\":\"India\",\"cost\":100,\"revenue\":150,\"profit\":50,'' @
     ''\"roi\":50,\"status\":\"PROFITABLE\"}],\"badCountries\":[],'' @
     ''\"recommendations\":[\"Block zones {123, 456}''"

text \<open>A payload without summary in which one record has no cost and another no revenue.\<close>

definition partial_report :: AnalysisResult where
  "partial_report =
     \<lparr>summary = None,
      details = Some [\<lparr>country = Some ''India'', cost = Undefined, revenue = Num 150,
                       profit = Undefined, roi = Undefined, status = None\<rparr>,
                      \<lparr>country = Some ''Brazil'', cost = Num 10, revenue = Undefined,
                       profit = Undefined, roi = Undefined, status = None\<rparr>],
      badCountries = Some [], recommendations = Some []\<rparr>"

section \<open>The merge on IEEE doubles\<close>

text \<open>
  A JavaScript number is an IEEE 754 double, and the result of every \<open>+\<close>, \<open>-\<close>,
  \<open>*\<close> and \<open>/\<close> is the exact result rounded to the nearest double, a tie going to
  the even significand. A finite double is a rational \<open>m * 2 ^ e\<close> whose significand
  \<open>m\<close> has at most 53 bits. \<open>round_double\<close> is the rounding for results in the normal
  range: with \<open>2 ^ k \<le> \<bar>x\<bar> < 2 ^ (k + 1)\<close> the doubles around \<open>x\<close> are the
  multiples of \<open>2 ^ (k - 52)\<close>. Overflow to an infinity and the subnormal range are
  not modelled.
\<close>

definition pow2 :: "int \<Rightarrow> rat" where
  "pow2 k = (if 0 \<le> k then 2 ^ nat k else 1 / 2 ^ nat (- k))"

definition exponent_of :: "rat \<Rightarrow> int" where
  "exponent_of x =
     (let (p, q) = quotient_of x; k = bitlen p - bitlen q
      in if pow2 k \<le> x then k else k - 1)"

definition round_half_even :: "rat \<Rightarrow> int" where
  "round_half_even x =
     (let f = \<lfloor>x\<rfloor>; d = x - of_int f
      in if d < 1 / 2 then f else if 1 / 2 < d then f + 1 else if even f then f else f + 1)"

definition round_double :: "rat \<Rightarrow> rat" where
  "round_double x =
     (if x = 0 then 0
      else (let a = \<bar>x\<bar>; u = pow2 (exponent_of a - 52)
            in sgn x * of_int (round_half_even (a / u)) * u))"

text \<open>The result of an operation after rounding; \<open>undefined\<close> and \<open>NaN\<close> stay.\<close>

fun rounded :: "(rat \<Rightarrow> rat) \<Rightarrow> jsnum \<Rightarrow> jsnum" where
  "rounded rnd (Num x) = Num (rnd x)"
| "rounded rnd Undefined = Undefined"
| "rounded rnd NaN = NaN"

text \<open>
  The merge branch of \<open>handleImportFile\<close> once more, line by line as above, with the
  rounding \<open>rnd\<close> applied to the result of each arithmetic operation. With the identity
  for \<open>rnd\<close> these are the functions of the exact model, with \<open>round_double\<close> they
  compute what the engine computes.
\<close>

definition accumulate_fp :: "(rat \<Rightarrow> rat) \<Rightarrow> CountryData \<Rightarrow> CountryData \<Rightarrow> CountryData" where
  "accumulate_fp rnd existing newItem =
     (let c = rounded rnd (js_add (cost existing) (cost newItem));
          r = rounded rnd (js_add (revenue existing) (revenue newItem));
          p = rounded rnd (js_sub r c);
          ro = (if js_gt c (Num 0)
                then rounded rnd (js_mul (rounded rnd (js_div p c)) (Num 100)) else Num 0);
          s = (if js_gt p (Num 0) then PROFITABLE
               else if js_lt p (Num (- (1 / 2))) then LOSS else BREAK_EVEN)
      in existing\<lparr>cost := c, revenue := r, profit := p, roi := ro, status := Some s\<rparr>)"

definition merge_item_fp :: "(rat \<Rightarrow> rat) \<Rightarrow> CountryData \<Rightarrow> details_map \<Rightarrow> details_map" where
  "merge_item_fp rnd newItem m =
     (case map_of m (country newItem) of
        Some existing \<Rightarrow> map_set (country newItem) (accumulate_fp rnd existing newItem) m
      | None \<Rightarrow> map_set (country newItem) newItem m)"

definition merge_details_fp :: "(rat \<Rightarrow> rat) \<Rightarrow> CountryData list \<Rightarrow> CountryData list \<Rightarrow> CountryData list" where
  "merge_details_fp rnd base incoming =
     map snd (fold (merge_item_fp rnd) incoming (insert_all base []))"

definition aggregate_fp :: "(rat \<Rightarrow> rat) \<Rightarrow> CountryData list \<Rightarrow> Summary" where
  "aggregate_fp rnd mergedDetails =
     (let tc = fold (\<lambda>i s. rounded rnd (js_add s (cost i))) mergedDetails (Num 0);
          tr = fold (\<lambda>i s. rounded rnd (js_add s (revenue i))) mergedDetails (Num 0);
          np = rounded rnd (js_sub tr tc);
          r = (if js_gt tc (Num 0)
               then rounded rnd (js_mul (rounded rnd (js_div np tc)) (Num 100)) else Num 0)
      in \<lparr>totalCost = tc, totalRevenue = tr, netProfit = np, totalRoi = r\<rparr>)"

definition merge_results_fp :: "(rat \<Rightarrow> rat) \<Rightarrow> AnalysisResult \<Rightarrow> AnalysisResult \<Rightarrow> AnalysisResult option" where
  "merge_results_fp rnd current importedData =
     (case (details current, details importedData,
            badCountries current, recommendations current) of
        (Some bd, Some nd, Some bb, Some br) \<Rightarrow>
          (let mergedDetails = merge_details_fp rnd bd nd in
           Some \<lparr>summary = Some (aggregate_fp rnd mergedDetails),
                 details = Some mergedDetails,
                 badCountries = Some (array_from_set
                    (bb @ (case badCountries importedData of Some l \<Rightarrow> l | None \<Rightarrow> []))),
                 recommendations = Some (array_from_set
                    (br @ (case recommendations importedData of Some l \<Rightarrow> l | None \<Rightarrow> [])))\<rparr>)
      | _ \<Rightarrow> None)"

text \<open>
  Three reports on one country: \<open>regroup_a\<close> holds the doubles nearest to 0.6 (cost) and
  0.1 (revenue), \<open>regroup_b\<close> a revenue of 0.2 and \<open>regroup_c\<close> a revenue of 0.3, each
  without cost. \<open>regroup_ab\<close> and \<open>regroup_bc\<close> are the merges of the first two and
  of the last two.
\<close>

definition regroup_a :: AnalysisResult where
  "regroup_a =
     \<lparr>summary = Some
         \<lparr>totalCost = Num (5404319552844595 / 9007199254740992),
          totalRevenue = Num (3602879701896397 / 36028797018963968),
          netProfit = Num (- (1 / 2)),
          totalRoi = Num (- (2932031007402667 / 35184372088832))\<rparr>,
      details = Some
        [\<lparr>country = Some ''X'',
          cost = Num (5404319552844595 / 9007199254740992),
          revenue = Num (3602879701896397 / 36028797018963968),
          profit = Num (- (1 / 2)),
          roi = Num (- (2932031007402667 / 35184372088832)),
          status = Some BREAK_EVEN\<rparr>],
      badCountries = Some [], recommendations = Some []\<rparr>"

definition regroup_b :: AnalysisResult where
  "regroup_b =
     \<lparr>summary = Some
         \<lparr>totalCost = Num 0,
          totalRevenue = Num (3602879701896397 / 18014398509481984),
          netProfit = Num (3602879701896397 / 18014398509481984),
          totalRoi = Num 0\<rparr>,
      details = Some
        [\<lparr>country = Some ''X'',
          cost = Num 0,
          revenue = Num (3602879701896397 / 18014398509481984),
          profit = Num (3602879701896397 / 18014398509481984),
          roi = Num 0,
          status = Some PROFITABLE\<rparr>],
      badCountries = Some [], recommendations = Some []\<rparr>"

definition regroup_c :: AnalysisResult where
  "regroup_c =
     \<lparr>summary = Some
         \<lparr>totalCost = Num 0,
          totalRevenue = Num (5404319552844595 / 18014398509481984),
          netProfit = Num (5404319552844595 / 18014398509481984),
          totalRoi = Num 0\<rparr>,
      details = Some
        [\<lparr>country = Some ''X'',
          cost = Num 0,
          revenue = Num (5404319552844595 / 18014398509481984),
          profit = Num (5404319552844595 / 18014398509481984),
          roi = Num 0,
          status = Some PROFITABLE\<rparr>],
      badCountries = Some [], recommendations = Some []\<rparr>"

definition regroup_ab :: AnalysisResult where
  "regroup_ab =
     \<lparr>summary = Some
         \<lparr>totalCost = Num (5404319552844595 / 9007199254740992),
          totalRevenue = Num (1351079888211149 / 4503599627370496),
          netProfit = Num (- (2702159776422297 / 9007199254740992)),
          totalRoi = Num (- (3518437208883199 / 70368744177664))\<rparr>,
      details = Some
        [\<lparr>country = Some ''X'',
          cost = Num (5404319552844595 / 9007199254740992),
          revenue = Num (1351079888211149 / 4503599627370496),
          profit = Num (- (2702159776422297 / 9007199254740992)),
          roi = Num (- (3518437208883199 / 70368744177664)),
          status = Some BREAK_EVEN\<rparr>],
      badCountries = Some [], recommendations = Some []\<rparr>"

definition regroup_bc :: AnalysisResult where
  "regroup_bc =
     \<lparr>summary = Some
         \<lparr>totalCost = Num 0,
          totalRevenue = Num (1 / 2),
          netProfit = Num (1 / 2),
          totalRoi = Num 0\<rparr>,
      details = Some
        [\<lparr>country = Some ''X'',
          cost = Num 0,
          revenue = Num (1 / 2),
          profit = Num (1 / 2),
          roi = Num 0,
          status = Some PROFITABLE\<rparr>],
      badCountries = Some [], recommendations = Some []\<rparr>"

text \<open>
  Two reports on different countries: a cost of 0.1 for X, and costs of 0.2 and 0.3 for
  Y and Z.
\<close>

definition order_a :: AnalysisResult where
  "order_a =
     \<lparr>summary = Some
         \<lparr>totalCost = Num (3602879701896397 / 36028797018963968),
          totalRevenue = Num 0,
          netProfit = Num (- (3602879701896397 / 36028797018963968)),
          totalRoi = Num (- 100)\<rparr>,
      details = Some
        [\<lparr>country = Some ''X'',
          cost = Num (3602879701896397 / 36028797018963968),
          revenue = Num 0,
          profit = Num (- (3602879701896397 / 36028797018963968)),
          roi = Num (- 100),
          status = Some BREAK_EVEN\<rparr>],
      badCountries = Some [], recommendations = Some []\<rparr>"

definition order_b :: AnalysisResult where
  "order_b =
     \<lparr>summary = Some
         \<lparr>totalCost = Num (1 / 2),
          totalRevenue = Num 0,
          netProfit = Num (- (1 / 2)),
          totalRoi = Num (- 100)\<rparr>,
      details = Some
        [\<lparr>country = Some ''Y'',
          cost = Num (3602879701896397 / 18014398509481984),
          revenue = Num 0,
          profit = Num (- (3602879701896397 / 18014398509481984)),
          roi = Num (- 100),
          status = Some BREAK_EVEN\<rparr>,
         \<lparr>country = Some ''Z'',
          cost = Num (5404319552844595 / 18014398509481984),
          revenue = Num 0,
          profit = Num (- (5404319552844595 / 18014398509481984)),
          roi = Num (- 100),
          status = Some BREAK_EVEN\<rparr>],
      badCountries = Some [], recommendations = Some []\<rparr>"

section \<open>JSON texts: JSON.stringify and JSON.parse\<close>

text \<open>
  The two platform functions as ECMA-262 defines them, on the values a report is made
  of. A JSON value is a tree; the members of an object are kept in the order in which
  they are written. A text is a list of bytes, a character outside ASCII being its
  UTF-8 bytes; a lone surrogate cannot be written so and is outside the model, and so
  is the sign of a zero.
\<close>

datatype json = JNull | JBool bool | JNum rat | JStr string | JArr "json list"
  | JObj "(string \<times> json) list"

text \<open>
  \<open>QuoteJSONString\<close>: the quotation mark, the backslash and the control characters
  are escaped, every other character is copied.
\<close>

definition hex_digit :: "nat \<Rightarrow> char" where
  "hex_digit n = ''0123456789abcdef'' ! n"

definition escape_char :: "char \<Rightarrow> string" where
  "escape_char c =
     (if c = CHR 0x22 then [CHR 0x5C, CHR 0x22]
      else if c = CHR 0x5C then [CHR 0x5C, CHR 0x5C]
      else if c = CHR 0x08 then [CHR 0x5C, CHR ''b'']
      else if c = CHR 0x09 then [CHR 0x5C, CHR ''t'']
      else if c = CHR 0x0A then [CHR 0x5C, CHR ''n'']
      else if c = CHR 0x0C then [CHR 0x5C, CHR ''f'']
      else if c = CHR 0x0D then [CHR 0x5C, CHR ''r'']
      else if of_char c < (0x20 :: nat)
      then [CHR 0x5C, CHR ''u'', CHR ''0'', CHR ''0'',
            hex_digit (of_char c div 16), hex_digit (of_char c mod 16)]
      else [c])"

definition quote :: "string \<Rightarrow> string" where
  "quote s = CHR 0x22 # concat (map escape_char s) @ [CHR 0x22]"

text \<open>
  \<open>JSON.stringify(value, null, 2)\<close>: \<open>SerializeJSONProperty\<close>, \<open>SerializeJSONArray\<close>
  and \<open>SerializeJSONObject\<close> with a gap of two spaces; \<open>ind\<close> is the indentation
  reached. An empty array or object is written without a line break. The digits
  written for a number are the engine's \<open>Number::toString\<close>, the parameter \<open>sn\<close>.
\<close>

definition newline :: "nat \<Rightarrow> string" where
  "newline ind = CHR 0x0A # replicate ind (CHR 0x20)"

fun JSON_stringify :: "(rat \<Rightarrow> string) \<Rightarrow> nat \<Rightarrow> json \<Rightarrow> string"
  and JSON_stringify_elems :: "(rat \<Rightarrow> string) \<Rightarrow> nat \<Rightarrow> json list \<Rightarrow> string"
  and JSON_stringify_members :: "(rat \<Rightarrow> string) \<Rightarrow> nat \<Rightarrow> (string \<times> json) list \<Rightarrow> string"
where
  "JSON_stringify sn ind JNull = ''null''"
| "JSON_stringify sn ind (JBool b) = (if b then ''true'' else ''false'')"
| "JSON_stringify sn ind (JNum x) = sn x"
| "JSON_stringify sn ind (JStr s) = quote s"
| "JSON_stringify sn ind (JArr vs) =
     (if vs = [] then ''[]''
      else ''['' @ newline (ind + 2) @ JSON_stringify_elems sn (ind + 2) vs @ newline ind @ '']'')"
| "JSON_stringify sn ind (JObj kvs) =
     (if kvs = [] then ''{}''
      else ''{'' @ newline (ind + 2) @ JSON_stringify_members sn (ind + 2) kvs @ newline ind @ ''}'')"
| "JSON_stringify_elems sn ind [] = []"
| "JSON_stringify_elems sn ind (v # vs) =
     JSON_stringify sn ind v @
     (if vs = [] then [] else '','' @ newline ind @ JSON_stringify_elems sn ind vs)"
| "JSON_stringify_members sn ind [] = []"
| "JSON_stringify_members sn ind ((k, v) # kvs) =
     quote k @ '': '' @ JSON_stringify sn ind v @
     (if kvs = [] then [] else '','' @ newline ind @ JSON_stringify_members sn ind kvs)"

text \<open>
  \<open>JSON.parse\<close>: white space, strings with their escapes (the escape with four
  hexadecimal digits gives the UTF-8 bytes of that code unit), arrays, objects and the
  three literals. A number token is the longest run of characters that can stand in a
  number; whether it is a number, and which, is the engine's reading of it, the
  parameter \<open>rn\<close>. \<open>None\<close> is the \<open>SyntaxError\<close>.
\<close>

definition is_ws :: "char \<Rightarrow> bool" where
  "is_ws c = (c = CHR 0x20 \<or> c = CHR 0x09 \<or> c = CHR 0x0A \<or> c = CHR 0x0D)"

definition skip_ws :: "string \<Rightarrow> string" where
  "skip_ws s = dropWhile is_ws s"

definition is_num_char :: "char \<Rightarrow> bool" where
  "is_num_char c = (c \<in> set ''0123456789+-.eE'')"

definition hex_value :: "char \<Rightarrow> nat option" where
  "hex_value c =
     (let n = (of_char c :: nat)
      in if 0x30 \<le> n \<and> n \<le> 0x39 then Some (n - 0x30)
         else if 0x61 \<le> n \<and> n \<le> 0x66 then Some (n - 0x61 + 10)
         else if 0x41 \<le> n \<and> n \<le> 0x46 then Some (n - 0x41 + 10)
         else None)"

definition unescape :: "char \<Rightarrow> char option" where
  "unescape e =
     (if e = CHR 0x22 then Some (CHR 0x22)
      else if e = CHR 0x5C then Some (CHR 0x5C)
      else if e = CHR ''/'' then Some (CHR ''/'')
      else if e = CHR ''b'' then Some (CHR 0x08)
      else if e = CHR ''t'' then Some (CHR 0x09)
      else if e = CHR ''n'' then Some (CHR 0x0A)
      else if e = CHR ''f'' then Some (CHR 0x0C)
      else if e = CHR ''r'' then Some (CHR 0x0D)
      else None)"

definition code_unit :: "nat \<Rightarrow> string" where
  "code_unit n =
     (if n < 0x80 then [char_of n]
      else if n < 0x800 then [char_of (0xC0 + n div 64), char_of (0x80 + n mod 64)]
      else [char_of (0xE0 + n div 4096), char_of (0x80 + n div 64 mod 64),
            char_of (0x80 + n mod 64)])"

fun parse_string :: "string \<Rightarrow> (string \<times> string) option" where
  "parse_string [] = None"
| "parse_string (c # cs) =
     (if c = CHR 0x22 then Some ([], cs)
      else if c = CHR 0x5C then
        (case cs of
           [] \<Rightarrow> None
         | e # cs1 \<Rightarrow>
             if e = CHR ''u'' then
               (case cs1 of
                  a # b # c' # d # cs2 \<Rightarrow>
                    (case (hex_value a, hex_value b, hex_value c', hex_value d) of
                       (Some h1, Some h2, Some h3, Some h4) \<Rightarrow>
                         (case parse_string cs2 of
                            Some (s, r) \<Rightarrow>
                              Some (code_unit (((h1 * 16 + h2) * 16 + h3) * 16 + h4) @ s, r)
                          | None \<Rightarrow> None)
                     | _ \<Rightarrow> None)
                | _ \<Rightarrow> None)
             else
               (case unescape e of
                  Some ch \<Rightarrow>
                    (case parse_string cs1 of
                       Some (s, r) \<Rightarrow> Some (ch # s, r)
                     | None \<Rightarrow> None)
                | None \<Rightarrow> None))
      else if of_char c < (0x20 :: nat) then None
      else (case parse_string cs of Some (s, r) \<Rightarrow> Some (c # s, r) | None \<Rightarrow> None))"

text \<open>
  The three parsing functions call each other; the first argument after \<open>rn\<close> bounds
  the depth of the calls, and \<open>None\<close> is also the answer when it is used up.
  \<open>JSON_parse\<close> allows as many calls as the text has characters, and one more; lemma
  \<open>JSON_parse_stringify\<close> shows that this is enough for every text that
  \<open>JSON_stringify\<close> writes.
\<close>

fun parse_value :: "(string \<Rightarrow> rat option) \<Rightarrow> nat \<Rightarrow> string \<Rightarrow> (json \<times> string) option"
  and parse_elems :: "(string \<Rightarrow> rat option) \<Rightarrow> nat \<Rightarrow> string \<Rightarrow> (json list \<times> string) option"
  and parse_members ::
    "(string \<Rightarrow> rat option) \<Rightarrow> nat \<Rightarrow> string \<Rightarrow> ((string \<times> json) list \<times> string) option"
where
  "parse_value rn 0 s = None"
| "parse_value rn (Suc n) s =
     (case skip_ws s of
        [] \<Rightarrow> None
      | c # r \<Rightarrow>
          if c = CHR 0x22 then
            (case parse_string r of Some (t, r') \<Rightarrow> Some (JStr t, r') | None \<Rightarrow> None)
          else if c = CHR ''['' then
            (case skip_ws r of
               [] \<Rightarrow> None
             | c' # r' \<Rightarrow>
                 if c' = CHR '']'' then Some (JArr [], r')
                 else (case parse_elems rn n r of
                         Some (vs, r'') \<Rightarrow> Some (JArr vs, r'')
                       | None \<Rightarrow> None))
          else if c = CHR ''{'' then
            (case skip_ws r of
               [] \<Rightarrow> None
             | c' # r' \<Rightarrow>
                 if c' = CHR ''}'' then Some (JObj [], r')
                 else (case parse_members rn n r of
                         Some (kvs, r'') \<Rightarrow> Some (JObj kvs, r'')
                       | None \<Rightarrow> None))
          else if is_num_char c then
            (case rn (takeWhile is_num_char (c # r)) of
               Some x \<Rightarrow> Some (JNum x, dropWhile is_num_char (c # r))
             | None \<Rightarrow> None)
          else
            (case strip_prefix ''null'' (c # r) of
               Some r' \<Rightarrow> Some (JNull, r')
             | None \<Rightarrow>
                 (case strip_prefix ''true'' (c # r) of
                    Some r' \<Rightarrow> Some (JBool True, r')
                  | None \<Rightarrow>
                      (case strip_prefix ''false'' (c # r) of
                         Some r' \<Rightarrow> Some (JBool False, r')
                       | None \<Rightarrow> None))))"
| "parse_elems rn 0 s = None"
| "parse_elems rn (Suc n) s =
     (case parse_value rn n s of
        None \<Rightarrow> None
      | Some (v, r) \<Rightarrow>
          (case skip_ws r of
             [] \<Rightarrow> None
           | c # r' \<Rightarrow>
               if c = CHR '','' then
                 (case parse_elems rn n r' of
                    Some (vs, r'') \<Rightarrow> Some (v # vs, r'')
                  | None \<Rightarrow> None)
               else if c = CHR '']'' then Some ([v], r')
               else None))"
| "parse_members rn 0 s = None"
| "parse_members rn (Suc n) s =
     (case skip_ws s of
        [] \<Rightarrow> None
      | q # r \<Rightarrow>
          if q \<noteq> CHR 0x22 then None
          else
            (case parse_string r of
               None \<Rightarrow> None
             | Some (k, r1) \<Rightarrow>
                 (case skip_ws r1 of
                    [] \<Rightarrow> None
                  | col # r2 \<Rightarrow>
                      if col \<noteq> CHR '':'' then None
                      else
                        (case parse_value rn n r2 of
                           None \<Rightarrow> None
                         | Some (v, r3) \<Rightarrow>
                             (case skip_ws r3 of
                                [] \<Rightarrow> None
                              | c # r4 \<Rightarrow>
                                  if c = CHR '','' then
                                    (case parse_members rn n r4 of
                                       Some (kvs, r5) \<Rightarrow> Some ((k, v) # kvs, r5)
                                     | None \<Rightarrow> None)
                                  else if c = CHR ''}'' then Some ([(k, v)], r4)
                                  else None)))))"

definition JSON_parse :: "(string \<Rightarrow> rat option) \<Rightarrow> string \<Rightarrow> json option" where
  "JSON_parse rn text =
     (case parse_value rn (Suc (length text)) text of
        Some (j, r) \<Rightarrow> if skip_ws r = [] then Some j else None
      | None \<Rightarrow> None)"

text \<open>
  What is asked of the engine's two number conversions at a number \<open>x\<close>: the token
  written for \<open>x\<close> is not empty, consists of characters of a number, and is read as
  \<open>x\<close>. ECMA-262 asks this of \<open>Number::toString\<close> for every finite double. A tree is
  printable when this holds for every number in it.
\<close>

definition reads_back :: "(rat \<Rightarrow> string) \<Rightarrow> (string \<Rightarrow> rat option) \<Rightarrow> rat \<Rightarrow> bool" where
  "reads_back sn rn x = (sn x \<noteq> [] \<and> list_all is_num_char (sn x) \<and> rn (sn x) = Some x)"

fun printable :: "(rat \<Rightarrow> string) \<Rightarrow> (string \<Rightarrow> rat option) \<Rightarrow> json \<Rightarrow> bool"
  and printable_elems :: "(rat \<Rightarrow> string) \<Rightarrow> (string \<Rightarrow> rat option) \<Rightarrow> json list \<Rightarrow> bool"
  and printable_members ::
    "(rat \<Rightarrow> string) \<Rightarrow> (string \<Rightarrow> rat option) \<Rightarrow> (string \<times> json) list \<Rightarrow> bool"
where
  "printable sn rn (JNum x) = reads_back sn rn x"
| "printable sn rn (JArr vs) = printable_elems sn rn vs"
| "printable sn rn (JObj kvs) = printable_members sn rn kvs"
| "printable sn rn JNull = True"
| "printable sn rn (JBool b) = True"
| "printable sn rn (JStr s) = True"
| "printable_elems sn rn [] = True"
| "printable_elems sn rn (v # vs) = (printable sn rn v \<and> printable_elems sn rn vs)"
| "printable_members sn rn [] = True"
| "printable_members sn rn ((k, v) # kvs) = (printable sn rn v \<and> printable_members sn rn kvs)"

text \<open>The depth of calls that parsing the text of a tree takes.\<close>

fun need :: "json \<Rightarrow> nat"
  and need_elems :: "json list \<Rightarrow> nat"
  and need_members :: "(string \<times> json) list \<Rightarrow> nat"
where
  "need (JArr vs) = Suc (need_elems vs)"
| "need (JObj kvs) = Suc (need_members kvs)"
| "need JNull = 1"
| "need (JBool b) = 1"
| "need (JNum x) = 1"
| "need (JStr s) = 1"
| "need_elems [] = 0"
| "need_elems (v # vs) = Suc (need v + need_elems vs)"
| "need_members [] = 0"
| "need_members ((k, v) # kvs) = Suc (need v + need_members kvs)"

text \<open>A number token ends where the text ends or a character of another kind stands.\<close>

definition boundary :: "string \<Rightarrow> bool" where
  "boundary rest = (case rest of [] \<Rightarrow> True | c # t \<Rightarrow> \<not> is_num_char c)"

text \<open>
  An instance of the two number conversions, for integers only: the decimal digits
  with a minus sign, which is what \<open>Number::toString\<close> writes for an integer below
  \<open>10 ^ 21\<close>, and the reading of such a token. For another number \<open>integer_text\<close> is
  empty, so that \<open>reads_back\<close> is false there.
\<close>

fun digits_of :: "nat \<Rightarrow> string" where
  "digits_of n =
     (if n < 10 then [hex_digit n] else digits_of (n div 10) @ [hex_digit (n mod 10)])"

declare digits_of.simps [simp del]

definition integer_text :: "rat \<Rightarrow> string" where
  "integer_text x =
     (let (p, q) = quotient_of x
      in if q \<noteq> 1 then []
         else if p < 0 then CHR ''-'' # digits_of (nat (- p))
         else digits_of (nat p))"

fun digits_value :: "string \<Rightarrow> nat \<Rightarrow> nat option" where
  "digits_value [] acc = Some acc"
| "digits_value (c # cs) acc =
     (case hex_value c of
        None \<Rightarrow> None
      | Some d \<Rightarrow> if d < 10 then digits_value cs (acc * 10 + d) else None)"

definition integer_value :: "string \<Rightarrow> rat option" where
  "integer_value s =
     (case s of
        [] \<Rightarrow> None
      | c # cs \<Rightarrow>
          if c = CHR ''-''
          then (if cs = [] then None else map_option (\<lambda>n. - of_nat n) (digits_value cs 0))
          else map_option of_nat (digits_value s 0))"

section \<open>Reports as JSON values\<close>

text \<open>
  The object that \<open>JSON.stringify\<close> walks when it is given a report. A property that
  the report does not have, or that holds \<open>undefined\<close>, is left out; \<open>NaN\<close> is written as
  \<open>null\<close>. The members stand in the order of the record fields above; a
  property is read by its name, so the order has no effect on what is read back.
\<close>

definition number_member :: "string \<Rightarrow> jsnum \<Rightarrow> (string \<times> json) list" where
  "number_member k x =
     (case x of Undefined \<Rightarrow> [] | NaN \<Rightarrow> [(k, JNull)] | Num q \<Rightarrow> [(k, JNum q)])"

definition optional_member :: "string \<Rightarrow> json option \<Rightarrow> (string \<times> json) list" where
  "optional_member k v = (case v of None \<Rightarrow> [] | Some j \<Rightarrow> [(k, j)])"

fun status_text :: "Status \<Rightarrow> string" where
  "status_text PROFITABLE = ''PROFITABLE''"
| "status_text LOSS = ''LOSS''"
| "status_text BREAK_EVEN = ''BREAK_EVEN''"

definition country_json :: "CountryData \<Rightarrow> json" where
  "country_json c =
     JObj (optional_member ''country'' (map_option JStr (country c)) @
           number_member ''cost'' (cost c) @
           number_member ''revenue'' (revenue c) @
           number_member ''profit'' (profit c) @
           number_member ''roi'' (roi c) @
           optional_member ''status'' (map_option (JStr \<circ> status_text) (status c)))"

definition summary_json :: "Summary \<Rightarrow> json" where
  "summary_json s =
     JObj (number_member ''totalCost'' (totalCost s) @
           number_member ''totalRevenue'' (totalRevenue s) @
           number_member ''netProfit'' (netProfit s) @
           number_member ''totalRoi'' (totalRoi s))"

definition result_json :: "AnalysisResult \<Rightarrow> json" where
  "result_json r =
     JObj (optional_member ''summary'' (map_option summary_json (summary r)) @
           optional_member ''details'' (map_option (JArr \<circ> map country_json) (details r)) @
           optional_member ''badCountries'' (map_option (JArr \<circ> map JStr) (badCountries r)) @
           optional_member ''recommendations''
             (map_option (JArr \<circ> map JStr) (recommendations r)))"

text \<open>
  Reading a property of a parsed object: the last member with that name, or nothing.
\<close>

definition field :: "string \<Rightarrow> (string \<times> json) list \<Rightarrow> json option" where
  "field k kvs = map_of (rev kvs) k"

text \<open>
  The parsed value seen through the record types above. The outer \<open>None\<close> of the
  functions \<open>as_...\<close> marks a value that these types cannot hold (a number where a
  list is expected, a \<open>null\<close> cost, a status outside the three names): such a file is
  outside the data model. The handler tests \<open>summary\<close>, \<open>details\<close>, \<open>badCountries\<close>
  and \<open>recommendations\<close> with \<open>!\<close> before any other use, so a falsy value there counts
  as a missing property.
\<close>

fun falsy :: "json \<Rightarrow> bool" where
  "falsy JNull = True"
| "falsy (JBool b) = (\<not> b)"
| "falsy (JNum x) = (x = 0)"
| "falsy (JStr s) = (s = [])"
| "falsy (JArr vs) = False"
| "falsy (JObj kvs) = False"

fun as_number :: "json option \<Rightarrow> jsnum option" where
  "as_number None = Some Undefined"
| "as_number (Some (JNum x)) = Some (Num x)"
| "as_number (Some _) = None"

fun as_text :: "json option \<Rightarrow> string option option" where
  "as_text None = Some None"
| "as_text (Some (JStr s)) = Some (Some s)"
| "as_text (Some _) = None"

fun as_status :: "json option \<Rightarrow> Status option option" where
  "as_status None = Some None"
| "as_status (Some (JStr s)) =
     (if s = ''PROFITABLE'' then Some (Some PROFITABLE)
      else if s = ''LOSS'' then Some (Some LOSS)
      else if s = ''BREAK_EVEN'' then Some (Some BREAK_EVEN)
      else None)"
| "as_status (Some _) = None"

fun as_country_data :: "json \<Rightarrow> CountryData option" where
  "as_country_data (JObj kvs) =
     (case (as_text (field ''country'' kvs), as_number (field ''cost'' kvs),
            as_number (field ''revenue'' kvs), as_number (field ''profit'' kvs),
            as_number (field ''roi'' kvs), as_status (field ''status'' kvs)) of
        (Some c, Some co, Some re, Some pr, Some ro, Some st) \<Rightarrow>
          Some \<lparr>country = c, cost = co, revenue = re, profit = pr, roi = ro, status = st\<rparr>
      | _ \<Rightarrow> None)"
| "as_country_data _ = None"

fun as_string :: "json \<Rightarrow> string option" where
  "as_string (JStr s) = Some s"
| "as_string _ = None"

fun as_summary :: "json option \<Rightarrow> Summary option option" where
  "as_summary None = Some None"
| "as_summary (Some (JObj kvs)) =
     (case (as_number (field ''totalCost'' kvs), as_number (field ''totalRevenue'' kvs),
            as_number (field ''netProfit'' kvs), as_number (field ''totalRoi'' kvs)) of
        (Some tc, Some tr, Some np, Some ro) \<Rightarrow>
          Some (Some \<lparr>totalCost = tc, totalRevenue = tr, netProfit = np, totalRoi = ro\<rparr>)
      | _ \<Rightarrow> None)"
| "as_summary (Some j) = (if falsy j then Some None else None)"

fun as_list :: "(json \<Rightarrow> 'a option) \<Rightarrow> json option \<Rightarrow> 'a list option option" where
  "as_list f None = Some None"
| "as_list f (Some (JArr vs)) = map_option Some (those (map f vs))"
| "as_list f (Some j) = (if falsy j then Some None else None)"

text \<open>
  \<open>importedData\<close> after \<open>JSON.parse\<close>: \<open>Some None\<close> for a value without properties
  (\<open>null\<close>, a number, a string, an array), as for the parameter \<open>parse\<close> of
  \<open>handleImportFile\<close>.
\<close>

fun as_result :: "json \<Rightarrow> AnalysisResult option option" where
  "as_result (JObj kvs) =
     (case (as_summary (field ''summary'' kvs),
            as_list as_country_data (field ''details'' kvs),
            as_list as_string (field ''badCountries'' kvs),
            as_list as_string (field ''recommendations'' kvs)) of
        (Some s, Some d, Some b, Some r) \<Rightarrow>
          Some (Some \<lparr>summary = s, details = d, badCountries = b, recommendations = r\<rparr>)
      | _ \<Rightarrow> None)"
| "as_result JNull = Some None"
| "as_result (JBool b) = Some None"
| "as_result (JNum x) = Some None"
| "as_result (JStr s) = Some None"
| "as_result (JArr vs) = Some None"

text \<open>
  The two parameters of the handlers, instantiated: \<open>JSON.parse(text)\<close> read as a
  report, and \<open>JSON.stringify(data, null, 2)\<close>. For a text that parses to a value
  outside the data model \<open>parse_report\<close> gives \<open>None\<close>, the answer it gives for a text
  that does not parse; the theorems below do not speak of such texts.
\<close>

definition parse_report :: "(string \<Rightarrow> rat option) \<Rightarrow> string \<Rightarrow> AnalysisResult option option" where
  "parse_report rn text =
     (case JSON_parse rn text of None \<Rightarrow> None | Some j \<Rightarrow> as_result j)"

definition stringify_report :: "(rat \<Rightarrow> string) \<Rightarrow> AnalysisResult \<Rightarrow> string" where
  "stringify_report sn r = JSON_stringify sn 0 (result_json r)"

text \<open>
  A report without \<open>NaN\<close>: every number of the report is written as a number, not as
  \<open>null\<close>.
\<close>

definition nan_free_country :: "CountryData \<Rightarrow> bool" where
  "nan_free_country c =
     (cost c \<noteq> NaN \<and> revenue c \<noteq> NaN \<and> profit c \<noteq> NaN \<and> roi c \<noteq> NaN)"

definition nan_free_summary :: "Summary \<Rightarrow> bool" where
  "nan_free_summary s =
     (totalCost s \<noteq> NaN \<and> totalRevenue s \<noteq> NaN \<and> netProfit s \<noteq> NaN \<and> totalRoi s \<noteq> NaN)"

definition nan_free :: "AnalysisResult \<Rightarrow> bool" where
  "nan_free r =
     ((case summary r of None \<Rightarrow> True | Some s \<Rightarrow> nan_free_summary s) \<and>
      (case details r of None \<Rightarrow> True | Some d \<Rightarrow> list_all nan_free_country d))"

text \<open>
  A report with a country name that needs escapes (a quotation mark, a backslash, a
  line feed), with records that lack properties, a negative cost and an empty text.
\<close>

definition quoted_report :: AnalysisResult where
  "quoted_report =
     \<lparr>summary = Some \<lparr>totalCost = Num 7, totalRevenue = Num 7, netProfit = Num 0,
                       totalRoi = Undefined\<rparr>,
      details = Some [\<lparr>country = Some (''A '' @ [CHR 0x22] @ ''B'' @ [CHR 0x22, CHR 0x5C, CHR 0x0A]),
                       cost = Num (- 5), revenue = Undefined,
                       profit = Undefined, roi = Num 0, status = None\<rparr>,
                      \<lparr>country = None, cost = Num 12, revenue = Num 7,
                       profit = Num (- 5), roi = Undefined, status = Some LOSS\<rparr>],
      badCountries = Some [[]], recommendations = Some [''Block zones {1}; then wait'']\<rparr>"

section \<open>Properties\<close>

subsection \<open>Sums read through \<open>|| 0\<close>\<close>

lemma js_or0_num0: "js_or0 x = Num (num0 x)"
  by (cases x) simp_all

lemma fold_or0_sum:
  "fold (\<lambda>curr acc. js_add acc (js_or0 (f curr))) d (Num a) =
     Num (a + sum_list (map (\<lambda>r. num0 (f r)) d))"
  by (induction d arbitrary: a) (simp_all add: js_or0_num0 add.assoc)

lemma synthesize_summary_sums:
  "synthesize_summary d =
     (let tc = sum_list (map (\<lambda>r. num0 (cost r)) d);
          tr = sum_list (map (\<lambda>r. num0 (revenue r)) d)
      in \<lparr>totalCost = Num tc, totalRevenue = Num tr, netProfit = Num (tr - tc),
          totalRoi = Num (if 0 < tc then (tr - tc) / tc * 100 else 0)\<rparr>)"
  by (simp add: synthesize_summary_def Let_def fold_or0_sum)

subsection \<open>Legacy reports\<close>

text \<open>
  Claim C4. A payload that has details but no summary leaves ingestion with a summary
  computed from those details: the totals are the sums of the cost and revenue fields, a
  missing value counting as 0, the net profit is their difference and the ROI is
  net profit over total cost times 100 when the total cost is positive, 0 otherwise.
  The witness is the legacy report of the specification: totals 100 and 150, net
  profit 50, ROI 50.
\<close>

theorem legacy_summary_synthesized:
  assumes "details p = Some d" and "summary p = None"
  shows "\<exists>r. ingest (Some p) = Some r \<and> details r = Some d \<and>
           summary r = Some
             (let tc = sum_list (map (\<lambda>c. num0 (cost c)) d);
                  tr = sum_list (map (\<lambda>c. num0 (revenue c)) d)
              in \<lparr>totalCost = Num tc, totalRevenue = Num tr, netProfit = Num (tr - tc),
                  totalRoi = Num (if 0 < tc then (tr - tc) / tc * 100 else 0)\<rparr>)"
  using assms by (simp add: ingest_def Let_def synthesize_summary_sums)

theorem legacy_summary_synthesized_witness:
  "details legacy_india =
     Some [\<lparr>country = Some ''India'', cost = Num 100, revenue = Num 150,
            profit = Undefined, roi = Undefined, status = None\<rparr>] \<and>
   summary legacy_india = None \<and>
   (\<exists>r. ingest (Some legacy_india) = Some r \<and>
        summary r = Some \<lparr>totalCost = Num 100, totalRevenue = Num 150,
                          netProfit = Num 50, totalRoi = Num 50\<rparr>)"
  using legacy_summary_synthesized [of legacy_india
      "[\<lparr>country = Some ''India'', cost = Num 100, revenue = Num 150,
         profit = Undefined, roi = Undefined, status = None\<rparr>]"]
  by (auto simp: legacy_india_def)

subsection \<open>The visibility filter\<close>

text \<open>
  Claim C8. The rows shown are exactly the records whose country is not hidden, in
  their order; once a country is hidden the totals shown are computed from those rows
  alone; the block list is filtered by the same hidden names; and hiding, unhiding or
  showing all leaves the result the component was given as it was.
\<close>

theorem visibility_filter_projection:
  "visibleData s = filter (\<lambda>d. country d \<notin> set (hiddenCountries s)) (details_of s) \<and>
   subseq (visibleData s) (details_of s) \<and>
   (hiddenCountries s \<noteq> [] \<longrightarrow>
      summary_shown s =
        (let tc = sum_list (map (\<lambda>d. num0 (cost d)) (visibleData s));
             tr = sum_list (map (\<lambda>d. num0 (revenue d)) (visibleData s))
         in \<lparr>totalCost = Num tc, totalRevenue = Num tr, netProfit = Num (tr - tc),
             totalRoi = Num (if 0 < tc then (tr - tc) / tc * 100 else 0)\<rparr>)) \<and>
   visibleBadCountries s =
     filter (\<lambda>c. Some c \<notin> set (hiddenCountries s)) (badCountries_of s) \<and>
   data (toggleVisibility c s) = data s \<and> data (showAll s) = data s \<and>
   details_of (toggleVisibility c s) = details_of s"
  by (simp add: visibleData_def summary_shown_def Let_def fold_or0_sum
      visibleBadCountries_def toggleVisibility_def showAll_def details_of_def)

theorem visibility_filter_projection_witness:
  "hiddenCountries (toggleVisibility (Some ''India'') three_countries) \<noteq> [] \<and>
   map country (visibleData (toggleVisibility (Some ''India'') three_countries)) =
     [Some ''Brazil'', Some ''Kenya''] \<and>
   summary_shown (toggleVisibility (Some ''India'') three_countries) =
     \<lparr>totalCost = Num 50, totalRevenue = Num 50, netProfit = Num 0, totalRoi = Num 0\<rparr> \<and>
   visibleBadCountries (toggleVisibility (Some ''India'') three_countries) = [''Kenya''] \<and>
   data (toggleVisibility (Some ''India'') three_countries) = data three_countries"
  using visibility_filter_projection
      [of "toggleVisibility (Some ''India'') three_countries" "Some ''India''"]
    visibility_filter_projection [of three_countries "Some ''India''"]
  by (simp add: three_countries_def toggleVisibility_def details_of_def
      badCountries_of_def Let_def)

subsection \<open>Deleting a history entry\<close>

text \<open>
  Claim C10. Deleting by id keeps exactly the entries with another id, in their order,
  writes that list to storage, and changes nothing when no entry has the id.
\<close>

theorem delete_history_item_filters:
  "history (deleteHistoryItem ident st) =
     filter (\<lambda>item. item_id item \<noteq> ident) (history st) \<and>
   storage (deleteHistoryItem ident st) = Some (history (deleteHistoryItem ident st)) \<and>
   (ident \<notin> item_id ` set (history st) \<longrightarrow>
      history (deleteHistoryItem ident st) = history st) \<and>
   appState (deleteHistoryItem ident st) = appState st \<and>
   result (deleteHistoryItem ident st) = result st"
  by (auto simp: deleteHistoryItem_def Let_def filter_id_conv)

theorem delete_history_item_filters_witness:
  "''zz'' \<notin> item_id ` set (history history_two) \<and>
   history (deleteHistoryItem ''zz'' history_two) = history history_two \<and>
   map item_id (history (deleteHistoryItem ''a1'' history_two)) = [''b2'']"
  using delete_history_item_filters [of "''zz''" history_two]
    delete_history_item_filters [of "''a1''" history_two]
  by (simp add: history_two_def)

subsection \<open>The merge map\<close>

lemma map_of_map_set: "map_of (map_set k v m) = (map_of m)(k \<mapsto> v)"
  by (induction m) (auto simp: fun_eq_iff)

lemma keys_map_set: "fst ` set (map_set k v m) = insert k (fst ` set m)"
proof (induction m)
  case Nil
  then show ?case by simp
next
  case (Cons a m)
  obtain k' v' where a: "a = (k', v')" by (cases a)
  show ?case
  proof (cases "k' = k")
    case True
    then show ?thesis using a by auto
  next
    case False
    then show ?thesis using a Cons.IH by (simp add: insert_commute)
  qed
qed

lemma set_map_set: "set (map_set k v m) \<subseteq> insert (k, v) (set m)"
  by (induction m) (auto split: if_splits)

lemma distinct_map_set: "distinct (map fst m) \<Longrightarrow> distinct (map fst (map_set k v m))"
proof (induction m)
  case Nil
  then show ?case by simp
next
  case (Cons a m)
  then show ?case using keys_map_set [of k v m] by (cases a) auto
qed

lemma keyed_map_set: "keyed m \<Longrightarrow> country v = k \<Longrightarrow> keyed (map_set k v m)"
  using set_map_set [of k v m] by (auto simp: keyed_def)

lemma country_accumulate: "country (accumulate e n) = country e"
  by (simp add: accumulate_def Let_def)

lemma keyed_map_of: "keyed m \<Longrightarrow> map_of m k = Some v \<Longrightarrow> country v = k"
  by (auto simp: keyed_def dest: map_of_SomeD)

lemma keyed_values: "keyed m \<Longrightarrow> map (\<lambda>d. (country d, d)) (map snd m) = m"
  by (induction m) (auto simp: keyed_def)

lemma by_country_values: "keyed m \<Longrightarrow> by_country (map snd m) = map_of m"
  by (simp add: by_country_def keyed_values del: map_map)

lemma countries_values: "keyed m \<Longrightarrow> map country (map snd m) = map fst m"
  by (induction m) (auto simp: keyed_def)

lemma by_country_Cons:
  "by_country (d # ds) c = (if country d = c then Some d else by_country ds c)"
  by (auto simp: by_country_def)

lemma by_country_None: "by_country ds c = None \<longleftrightarrow> c \<notin> country ` set ds"
  by (simp add: by_country_def map_of_eq_None_iff image_image)

lemma insert_all_inv:
  "keyed m \<Longrightarrow> distinct (map fst m) \<Longrightarrow>
     keyed (insert_all base m) \<and> distinct (map fst (insert_all base m))"
  unfolding insert_all_def
  by (induction base arbitrary: m) (simp_all add: keyed_map_set distinct_map_set)

lemma insert_all_lookup:
  "distinct (map country base) \<Longrightarrow>
     map_of (insert_all base m) c =
       (case by_country base c of Some b \<Rightarrow> Some b | None \<Rightarrow> map_of m c)"
  unfolding insert_all_def
proof (induction base arbitrary: m)
  case Nil
  then show ?case by (simp add: by_country_def)
next
  case (Cons b base)
  have nb: "by_country base (country b) = None"
    using Cons.prems by (simp add: by_country_None)
  have "distinct (map country base)" using Cons.prems by simp
  from Cons.IH [OF this, of "map_set (country b) b m"] nb show ?case
    by (cases "country b = c") (auto simp: map_of_map_set by_country_Cons split: option.splits)
qed

lemma merge_item_inv:
  assumes "keyed m" "distinct (map fst m)"
  shows "keyed (merge_item n m) \<and> distinct (map fst (merge_item n m))"
proof (cases "map_of m (country n)")
  case None
  then show ?thesis using assms
    by (simp add: merge_item_def keyed_map_set distinct_map_set)
next
  case (Some e)
  then have "country (accumulate e n) = country n"
    using assms(1) by (simp add: country_accumulate keyed_map_of)
  then show ?thesis using assms Some
    by (simp add: merge_item_def keyed_map_set distinct_map_set)
qed

lemma merge_item_lookup:
  "map_of (merge_item n m) c =
     (if country n = c
      then Some (case map_of m c of Some e \<Rightarrow> accumulate e n | None \<Rightarrow> n)
      else map_of m c)"
  by (auto simp: merge_item_def map_of_map_set split: option.splits)

lemma merge_all_inv:
  "keyed m \<Longrightarrow> distinct (map fst m) \<Longrightarrow>
     keyed (fold merge_item inc m) \<and> distinct (map fst (fold merge_item inc m))"
  by (induction inc arbitrary: m) (simp_all add: merge_item_inv)

lemma merge_all_lookup:
  "distinct (map country inc) \<Longrightarrow>
     map_of (fold merge_item inc m) c =
       (case by_country inc c of
          Some n \<Rightarrow> Some (case map_of m c of Some e \<Rightarrow> accumulate e n | None \<Rightarrow> n)
        | None \<Rightarrow> map_of m c)"
proof (induction inc arbitrary: m)
  case Nil
  then show ?case by (simp add: by_country_def)
next
  case (Cons n inc)
  have nn: "by_country inc (country n) = None"
    using Cons.prems by (simp add: by_country_None)
  have "distinct (map country inc)" using Cons.prems by simp
  from Cons.IH [OF this, of "merge_item n m"] nn show ?case
    by (cases "country n = c") (auto simp: merge_item_lookup by_country_Cons split: option.splits)
qed

lemma merge_details_distinct: "distinct (map country (merge_details base inc))"
proof -
  have "keyed (insert_all base []) \<and> distinct (map fst (insert_all base []))"
    by (rule insert_all_inv) (simp_all add: keyed_def)
  then have "keyed (fold merge_item inc (insert_all base [])) \<and>
             distinct (map fst (fold merge_item inc (insert_all base [])))"
    by (simp add: merge_all_inv)
  then show ?thesis
    by (simp add: merge_details_def countries_values del: map_map)
qed

lemma merge_details_lookup:
  assumes "distinct (map country base)" "distinct (map country inc)"
  shows "by_country (merge_details base inc) c =
     (case by_country base c of
        Some b \<Rightarrow> (case by_country inc c of Some n \<Rightarrow> Some (accumulate b n) | None \<Rightarrow> Some b)
      | None \<Rightarrow> by_country inc c)"
proof -
  have "keyed (insert_all base []) \<and> distinct (map fst (insert_all base []))"
    by (rule insert_all_inv) (simp_all add: keyed_def)
  then have "keyed (fold merge_item inc (insert_all base []))"
    by (simp add: merge_all_inv)
  then have "by_country (merge_details base inc) = map_of (fold merge_item inc (insert_all base []))"
    by (simp add: merge_details_def by_country_values)
  then show ?thesis using assms
    by (simp add: merge_all_lookup insert_all_lookup split: option.splits)
qed

subsection \<open>Adding records and totals\<close>

lemma js_add_commute: "js_add x y = js_add y x"
  by (cases x; cases y) simp_all

lemma js_add_assoc: "js_add (js_add x y) z = js_add x (js_add y z)"
  by (cases x; cases y; cases z) simp_all

lemma accumulate_commute: "country a = country b \<Longrightarrow> accumulate a b = accumulate b a"
  by (simp add: accumulate_def Let_def js_add_commute [of "cost a"] js_add_commute [of "revenue a"])

lemma accumulate_assoc: "accumulate (accumulate a b) c = accumulate a (accumulate b c)"
  by (simp add: accumulate_def Let_def js_add_assoc)


lemma fold_add_NaN: "fold (\<lambda>i s. js_add s (f i)) xs NaN = NaN"
  by (induction xs) simp_all

lemma fold_add_total:
  "fold (\<lambda>i s. js_add s (f i)) xs (Num a) =
     (if \<forall>x \<in> set xs. is_num (f x) then Num (a + sum_list (map (\<lambda>x. num0 (f x)) xs)) else NaN)"
proof (induction xs arbitrary: a)
  case Nil
  then show ?case by simp
next
  case (Cons x xs)
  show ?case
  proof (cases "f x")
    case (Num r)
    then show ?thesis using Cons.IH [of "a + r"] by (simp add: add.assoc)
  qed (simp_all add: fold_add_NaN)
qed

lemma fold_add_mset:
  assumes "mset xs = mset ys"
  shows "fold (\<lambda>i s. js_add s (f i)) xs (Num a) = fold (\<lambda>i s. js_add s (f i)) ys (Num a)"
proof -
  have s: "set xs = set ys" using assms by (rule mset_eq_setD)
  have "mset (map (\<lambda>x. num0 (f x)) xs) = mset (map (\<lambda>x. num0 (f x)) ys)"
    using assms by simp
  then have "sum_list (map (\<lambda>x. num0 (f x)) xs) = sum_list (map (\<lambda>x. num0 (f x)) ys)"
    by (metis sum_mset_sum_list)
  then show ?thesis by (simp add: fold_add_total s)
qed

lemma aggregate_mset: "mset xs = mset ys \<Longrightarrow> aggregate xs = aggregate ys"
  by (simp add: aggregate_def Let_def fold_add_mset [of xs ys])

lemma by_country_mset:
  assumes "distinct (map country xs)" "distinct (map country ys)"
    and "by_country xs = by_country ys"
  shows "mset xs = mset ys"
proof -
  let ?p = "\<lambda>d. (country d, d)"
  have dx: "distinct (map fst (map ?p xs))" and dy: "distinct (map fst (map ?p ys))"
    using assms(1,2) by (simp_all add: comp_def)
  have "set (map ?p xs) = set (map ?p ys)"
    using map_of_inject_set [OF dx dy] assms(3) by (simp add: by_country_def)
  then have "snd ` set (map ?p xs) = snd ` set (map ?p ys)" by simp
  then have "set xs = set ys" by (simp add: image_image)
  moreover have "distinct xs" "distinct ys"
    using assms(1,2) by (simp_all add: distinct_map)
  ultimately show ?thesis by (simp add: set_eq_iff_mset_eq_distinct)
qed

lemma merge_details_commute:
  assumes "distinct (map country a)" "distinct (map country b)"
  shows "by_country (merge_details a b) = by_country (merge_details b a)"
proof
  fix c
  show "by_country (merge_details a b) c = by_country (merge_details b a) c"
  proof (cases "by_country a c")
    case None
    then show ?thesis using assms
      by (simp add: merge_details_lookup split: option.splits)
  next
    case (Some x)
    note xa = this
    show ?thesis
    proof (cases "by_country b c")
      case None
      then show ?thesis using assms xa by (simp add: merge_details_lookup)
    next
      case (Some y)
      have "country x = c" "country y = c"
        using xa Some by (auto simp: by_country_def dest!: map_of_SomeD)
      then have "accumulate x y = accumulate y x" by (simp add: accumulate_commute)
      then show ?thesis using assms xa Some by (simp add: merge_details_lookup)
    qed
  qed
qed

lemma merge_details_assoc:
  assumes "distinct (map country a)" "distinct (map country b)" "distinct (map country c)"
  shows "by_country (merge_details (merge_details a b) c) =
         by_country (merge_details a (merge_details b c))"
proof
  fix k
  show "by_country (merge_details (merge_details a b) c) k =
        by_country (merge_details a (merge_details b c)) k"
    using assms
    by (simp add: merge_details_lookup merge_details_distinct accumulate_assoc
        split: option.splits)
qed

subsection \<open>Merging two reports\<close>

lemma merge_results_Some:
  assumes "details cur = Some bd" "details imp = Some nd"
    "badCountries cur = Some bb" "recommendations cur = Some br"
  shows "merge_results cur imp =
     Some \<lparr>summary = Some (aggregate (merge_details bd nd)),
           details = Some (merge_details bd nd),
           badCountries = Some (array_from_set
              (bb @ (case badCountries imp of Some l \<Rightarrow> l | None \<Rightarrow> []))),
           recommendations = Some (array_from_set
              (br @ (case recommendations imp of Some l \<Rightarrow> l | None \<Rightarrow> [])))\<rparr>"
  using assms by (simp add: merge_results_def Let_def)



text \<open>
  With exact sums the order and the grouping of merges have no effect. Read as mappings
  from country to record, the details of merging A with B and B with A are equal and so
  are the summaries; merging A with B and then C gives the same mapping and summary as
  merging A with the merge of B and C. Each input holds a country at most once.
\<close>

lemma merge_commutative_associative_exact:
  assumes "details A = Some a" and "badCountries A = Some ba" and "recommendations A = Some ra"
    and "details B = Some b" and "badCountries B = Some bb" and "recommendations B = Some rb"
    and "details C = Some c"
    and "distinct (map country a)" and "distinct (map country b)"
    and "distinct (map country c)"
  shows "\<exists>AB BA BC L R ab ba' l r.
           merge_results A B = Some AB \<and> merge_results B A = Some BA \<and>
           details AB = Some ab \<and> details BA = Some ba' \<and>
           by_country ab = by_country ba' \<and> summary AB = summary BA \<and>
           merge_results AB C = Some L \<and>
           merge_results B C = Some BC \<and> merge_results A BC = Some R \<and>
           details L = Some l \<and> details R = Some r \<and>
           by_country l = by_country r \<and> summary L = summary R"
proof -
  have ab: "by_country (merge_details a b) = by_country (merge_details b a)"
    using assms by (simp add: merge_details_commute)
  then have "mset (merge_details a b) = mset (merge_details b a)"
    by (simp add: by_country_mset merge_details_distinct)
  then have sab: "aggregate (merge_details a b) = aggregate (merge_details b a)"
    by (rule aggregate_mset)
  have lr: "by_country (merge_details (merge_details a b) c) =
            by_country (merge_details a (merge_details b c))"
    using assms by (simp add: merge_details_assoc)
  then have "mset (merge_details (merge_details a b) c) =
             mset (merge_details a (merge_details b c))"
    by (simp add: by_country_mset merge_details_distinct)
  then have slr: "aggregate (merge_details (merge_details a b) c) =
                  aggregate (merge_details a (merge_details b c))"
    by (rule aggregate_mset)
  show ?thesis using assms ab sab lr slr
    by (simp add: merge_results_Some)
qed

text \<open>The merge on doubles is the exact merge when nothing is rounded.\<close>

lemma rounded_id: "rounded (\<lambda>x. x) v = v"
  by (cases v) simp_all

lemma accumulate_fp_exact: "accumulate_fp (\<lambda>x. x) = accumulate"
  by (intro ext) (simp add: accumulate_fp_def accumulate_def rounded_id cong: if_cong)

lemma merge_item_fp_exact: "merge_item_fp (\<lambda>x. x) = merge_item"
  by (intro ext) (simp add: merge_item_fp_def merge_item_def accumulate_fp_exact cong: option.case_cong)

lemma merge_details_fp_exact: "merge_details_fp (\<lambda>x. x) = merge_details"
  by (intro ext) (simp add: merge_details_fp_def merge_details_def merge_item_fp_exact)

lemma aggregate_fp_exact: "aggregate_fp (\<lambda>x. x) = aggregate"
  by (intro ext) (simp add: aggregate_fp_def aggregate_def rounded_id cong: if_cong)

lemma merge_results_fp_exact: "merge_results_fp (\<lambda>x. x) = merge_results"
  by (intro ext)
     (simp add: merge_results_fp_def merge_results_def merge_details_fp_exact aggregate_fp_exact
        split: option.splits)

lemma country_accumulate_fp: "country (accumulate_fp rnd e n) = country e"
  by (simp add: accumulate_fp_def Let_def)

lemma merge_item_fp_inv:
  assumes "keyed m" "distinct (map fst m)"
  shows "keyed (merge_item_fp rnd n m) \<and> distinct (map fst (merge_item_fp rnd n m))"
proof (cases "map_of m (country n)")
  case None
  then show ?thesis using assms
    by (simp add: merge_item_fp_def keyed_map_set distinct_map_set)
next
  case (Some e)
  then have "country (accumulate_fp rnd e n) = country n"
    using assms(1) by (simp add: country_accumulate_fp keyed_map_of)
  then show ?thesis using assms Some
    by (simp add: merge_item_fp_def keyed_map_set distinct_map_set)
qed

lemma merge_item_fp_lookup:
  "map_of (merge_item_fp rnd n m) c =
     (if country n = c
      then Some (case map_of m c of Some e \<Rightarrow> accumulate_fp rnd e n | None \<Rightarrow> n)
      else map_of m c)"
  by (auto simp: merge_item_fp_def map_of_map_set split: option.splits)

lemma merge_all_fp_inv:
  "keyed m \<Longrightarrow> distinct (map fst m) \<Longrightarrow>
     keyed (fold (merge_item_fp rnd) inc m) \<and>
     distinct (map fst (fold (merge_item_fp rnd) inc m))"
  by (induction inc arbitrary: m) (simp_all add: merge_item_fp_inv)

lemma merge_all_fp_lookup:
  "distinct (map country inc) \<Longrightarrow>
     map_of (fold (merge_item_fp rnd) inc m) c =
       (case by_country inc c of
          Some n \<Rightarrow> Some (case map_of m c of Some e \<Rightarrow> accumulate_fp rnd e n | None \<Rightarrow> n)
        | None \<Rightarrow> map_of m c)"
proof (induction inc arbitrary: m)
  case Nil
  then show ?case by (simp add: by_country_def)
next
  case (Cons n inc)
  have nn: "by_country inc (country n) = None"
    using Cons.prems by (simp add: by_country_None)
  have "distinct (map country inc)" using Cons.prems by simp
  from Cons.IH [OF this, of "merge_item_fp rnd n m"] nn show ?case
    by (cases "country n = c")
       (auto simp: merge_item_fp_lookup by_country_Cons split: option.splits)
qed

lemma merge_details_fp_distinct: "distinct (map country (merge_details_fp rnd base inc))"
proof -
  have "keyed (insert_all base []) \<and> distinct (map fst (insert_all base []))"
    by (rule insert_all_inv) (simp_all add: keyed_def)
  then have "keyed (fold (merge_item_fp rnd) inc (insert_all base [])) \<and>
             distinct (map fst (fold (merge_item_fp rnd) inc (insert_all base [])))"
    by (simp add: merge_all_fp_inv)
  then show ?thesis
    by (simp add: merge_details_fp_def countries_values del: map_map)
qed

lemma merge_details_fp_lookup:
  assumes "distinct (map country base)" "distinct (map country inc)"
  shows "by_country (merge_details_fp rnd base inc) c =
     (case by_country base c of
        Some b \<Rightarrow>
          (case by_country inc c of Some n \<Rightarrow> Some (accumulate_fp rnd b n) | None \<Rightarrow> Some b)
      | None \<Rightarrow> by_country inc c)"
proof -
  have "keyed (insert_all base []) \<and> distinct (map fst (insert_all base []))"
    by (rule insert_all_inv) (simp_all add: keyed_def)
  then have "keyed (fold (merge_item_fp rnd) inc (insert_all base []))"
    by (simp add: merge_all_fp_inv)
  then have "by_country (merge_details_fp rnd base inc) =
             map_of (fold (merge_item_fp rnd) inc (insert_all base []))"
    by (simp add: merge_details_fp_def by_country_values)
  then show ?thesis using assms
    by (simp add: merge_all_fp_lookup insert_all_lookup split: option.splits)
qed

lemma accumulate_fp_commute:
  "country a = country b \<Longrightarrow> accumulate_fp rnd a b = accumulate_fp rnd b a"
  by (simp add: accumulate_fp_def Let_def js_add_commute [of "cost a"]
      js_add_commute [of "revenue a"])

lemma merge_details_fp_commute:
  assumes "distinct (map country a)" "distinct (map country b)"
  shows "by_country (merge_details_fp rnd a b) = by_country (merge_details_fp rnd b a)"
proof
  fix c
  show "by_country (merge_details_fp rnd a b) c = by_country (merge_details_fp rnd b a) c"
  proof (cases "by_country a c")
    case None
    then show ?thesis using assms
      by (simp add: merge_details_fp_lookup split: option.splits)
  next
    case (Some x)
    note xa = this
    show ?thesis
    proof (cases "by_country b c")
      case None
      then show ?thesis using assms xa by (simp add: merge_details_fp_lookup)
    next
      case (Some y)
      have "country x = c" "country y = c"
        using xa Some by (auto simp: by_country_def dest!: map_of_SomeD)
      then have "accumulate_fp rnd x y = accumulate_fp rnd y x"
        by (simp add: accumulate_fp_commute)
      then show ?thesis using assms xa Some by (simp add: merge_details_fp_lookup)
    qed
  qed
qed

lemma merge_results_fp_Some:
  assumes "details cur = Some bd" "details imp = Some nd"
    "badCountries cur = Some bb" "recommendations cur = Some br"
  shows "merge_results_fp rnd cur imp =
     Some \<lparr>summary = Some (aggregate_fp rnd (merge_details_fp rnd bd nd)),
           details = Some (merge_details_fp rnd bd nd),
           badCountries = Some (array_from_set
              (bb @ (case badCountries imp of Some l \<Rightarrow> l | None \<Rightarrow> []))),
           recommendations = Some (array_from_set
              (br @ (case recommendations imp of Some l \<Rightarrow> l | None \<Rightarrow> [])))\<rparr>"
  using assms by (simp add: merge_results_fp_def Let_def)

text \<open>The numbers of the sample reports are the doubles nearest to the decimals.\<close>

lemma decimal_doubles:
  "round_double (1 / 10) = 3602879701896397 / 36028797018963968"
  "round_double (2 / 10) = 3602879701896397 / 18014398509481984"
  "round_double (3 / 10) = 5404319552844595 / 18014398509481984"
  "round_double (6 / 10) = 5404319552844595 / 9007199254740992"
  by code_simp+

text \<open>The roundings that the merges of the sample reports meet.\<close>

lemma double_roundings:
  "round_double (- 100) = - 100"
  "round_double (- (112589990684262375 / 2251799813685248)) = - (3518437208883199 / 70368744177664)"
  "round_double (- 1) = - 1"
  "round_double (- (1351079888211149 / 2251799813685248)) = - (1351079888211149 / 2251799813685248)"
  "round_double (- (5404319552844595 / 9007199254740992)) = - (5404319552844595 / 9007199254740992)"
  "round_double (- (2702159776422297 / 5404319552844595)) = - (4503599627370495 / 9007199254740992)"
  "round_double (- (2702159776422297 / 9007199254740992)) = - (2702159776422297 / 9007199254740992)"
  "round_double (0) = 0"
  "round_double (1 / 9007199254740992) = 1 / 9007199254740992"
  "round_double (1 / 5404319552844595) = 7505999378950827 / 40564819207303340847894502572032"
  "round_double (187649984473770675 / 10141204801825835211973625643008) = 2932031007402667 / 158456325028528675187087900672"
  "round_double (3602879701896397 / 36028797018963968) = 3602879701896397 / 36028797018963968"
  "round_double (3602879701896397 / 18014398509481984) = 3602879701896397 / 18014398509481984"
  "round_double (10808639105689191 / 36028797018963968) = 1351079888211149 / 4503599627370496"
  "round_double (1351079888211149 / 4503599627370496) = 1351079888211149 / 4503599627370496"
  "round_double (1 / 2) = 1 / 2"
  "round_double (5404319552844595 / 9007199254740992) = 5404319552844595 / 9007199254740992"
  "round_double (21617278211378381 / 36028797018963968) = 5404319552844595 / 9007199254740992"
  "round_double (10808639105689191 / 18014398509481984) = 1351079888211149 / 2251799813685248"
  "round_double (1351079888211149 / 2251799813685248) = 1351079888211149 / 2251799813685248"
  by code_simp+

text \<open>
  Claim C5, as stated, fails on doubles. The three reports are on one country:
  \<open>(0.1 + 0.2) + 0.3\<close> is the double 0.6000000000000001 and \<open>0.1 + (0.2 + 0.3)\<close> the
  double 0.6, so merging the first two reports and then the third gives the country a
  profit of \<open>2 ^ -53\<close> and the status \<open>PROFITABLE\<close>, while merging the first with the
  merge of the other two gives it a profit of 0 and the status \<open>BREAK_EVEN\<close>. The two
  reports on different countries give a total cost of 0.6000000000000001 merged in one
  order and of 0.6 merged in the other.
\<close>

theorem regrouping_changes_merge:
  "merge_results_fp round_double regroup_a regroup_b = Some regroup_ab \<and>
   merge_results_fp round_double regroup_ab regroup_c =
     Some
      \<lparr>summary = Some
          \<lparr>totalCost = Num (5404319552844595 / 9007199254740992),
           totalRevenue = Num (1351079888211149 / 2251799813685248),
           netProfit = Num (1 / 9007199254740992),
           totalRoi = Num (2932031007402667 / 158456325028528675187087900672)\<rparr>,
       details = Some
         [\<lparr>country = Some ''X'',
           cost = Num (5404319552844595 / 9007199254740992),
           revenue = Num (1351079888211149 / 2251799813685248),
           profit = Num (1 / 9007199254740992),
           roi = Num (2932031007402667 / 158456325028528675187087900672),
           status = Some PROFITABLE\<rparr>],
       badCountries = Some [], recommendations = Some []\<rparr> \<and>
   merge_results_fp round_double regroup_b regroup_c = Some regroup_bc \<and>
   merge_results_fp round_double regroup_a regroup_bc =
     Some
      \<lparr>summary = Some
          \<lparr>totalCost = Num (5404319552844595 / 9007199254740992),
           totalRevenue = Num (5404319552844595 / 9007199254740992),
           netProfit = Num 0,
           totalRoi = Num 0\<rparr>,
       details = Some
         [\<lparr>country = Some ''X'',
           cost = Num (5404319552844595 / 9007199254740992),
           revenue = Num (5404319552844595 / 9007199254740992),
           profit = Num 0,
           roi = Num 0,
           status = Some BREAK_EVEN\<rparr>],
       badCountries = Some [], recommendations = Some []\<rparr> \<and>
   map_option summary (merge_results_fp round_double order_a order_b) =
     Some (Some
         \<lparr>totalCost = Num (1351079888211149 / 2251799813685248),
          totalRevenue = Num 0,
          netProfit = Num (- (1351079888211149 / 2251799813685248)),
          totalRoi = Num (- 100)\<rparr>) \<and>
   map_option summary (merge_results_fp round_double order_b order_a) =
     Some (Some
         \<lparr>totalCost = Num (5404319552844595 / 9007199254740992),
          totalRevenue = Num 0,
          netProfit = Num (- (5404319552844595 / 9007199254740992)),
          totalRoi = Num (- 100)\<rparr>)"
  by (simp add: regroup_a_def regroup_b_def regroup_c_def regroup_ab_def regroup_bc_def
      order_a_def order_b_def merge_results_fp_def merge_details_fp_def insert_all_def
      merge_item_fp_def accumulate_fp_def aggregate_fp_def array_from_set_def Let_def
      double_roundings)

text \<open>
  Claim C5, amended. Whatever the rounding, merging A with B and merging B with A give
  every country the same record: the same cost, revenue, profit, roi and status. Each
  input holds a country at most once. Nothing is said of the two summaries, nor of the
  grouping of three merges.
\<close>

theorem merge_commutes_by_country:
  assumes "details A = Some a" and "badCountries A = Some ba" and "recommendations A = Some ra"
    and "details B = Some b" and "badCountries B = Some bb" and "recommendations B = Some rb"
    and "distinct (map country a)" and "distinct (map country b)"
  shows "\<exists>AB BA ab ba'.
           merge_results_fp rnd A B = Some AB \<and> merge_results_fp rnd B A = Some BA \<and>
           details AB = Some ab \<and> details BA = Some ba' \<and>
           distinct (map country ab) \<and> distinct (map country ba') \<and>
           by_country ab = by_country ba'"
  using assms
  by (simp add: merge_results_fp_Some merge_details_fp_distinct merge_details_fp_commute)

theorem merge_commutes_by_country_witness:
  "details regroup_a =
     Some
       [\<lparr>country = Some ''X'',
           cost = Num (5404319552844595 / 9007199254740992),
           revenue = Num (3602879701896397 / 36028797018963968),
           profit = Num (- (1 / 2)),
           roi = Num (- (2932031007402667 / 35184372088832)),
           status = Some BREAK_EVEN\<rparr>] \<and>
   badCountries regroup_a = Some [] \<and> recommendations regroup_a = Some [] \<and>
   details regroup_b =
     Some
       [\<lparr>country = Some ''X'',
           cost = Num 0,
           revenue = Num (3602879701896397 / 18014398509481984),
           profit = Num (3602879701896397 / 18014398509481984),
           roi = Num 0,
           status = Some PROFITABLE\<rparr>] \<and>
   badCountries regroup_b = Some [] \<and> recommendations regroup_b = Some [] \<and>
   merge_results_fp round_double regroup_a regroup_b = Some regroup_ab \<and>
   merge_results_fp round_double regroup_b regroup_a = Some regroup_ab \<and>
   map_option (map country) (details regroup_ab) = Some [Some ''X'']"
  using merge_commutes_by_country [where rnd = round_double
      and A = regroup_a and B = regroup_b and ba = "[]" and ra = "[]" and bb = "[]" and rb = "[]"
      and a = "[\<lparr>country = Some ''X'',
                  cost = Num (5404319552844595 / 9007199254740992),
                  revenue = Num (3602879701896397 / 36028797018963968),
                  profit = Num (- (1 / 2)),
                  roi = Num (- (2932031007402667 / 35184372088832)),
                  status = Some BREAK_EVEN\<rparr>]"
      and b = "[\<lparr>country = Some ''X'',
                  cost = Num 0,
                  revenue = Num (3602879701896397 / 18014398509481984),
                  profit = Num (3602879701896397 / 18014398509481984),
                  roi = Num 0,
                  status = Some PROFITABLE\<rparr>]"]
  by (simp add: regroup_a_def regroup_b_def regroup_ab_def merge_results_fp_def
      merge_details_fp_def insert_all_def merge_item_fp_def accumulate_fp_def aggregate_fp_def
      array_from_set_def Let_def double_roundings)

subsection \<open>What a merge keeps\<close>

lemma keys_insert_all: "fst ` set (insert_all base m) = fst ` set m \<union> country ` set base"
  unfolding insert_all_def
  by (induction base arbitrary: m) (auto simp: keys_map_set)

lemma keys_merge_item: "fst ` set (merge_item n m) = insert (country n) (fst ` set m)"
  by (simp add: merge_item_def keys_map_set split: option.splits)

lemma keys_merge_all: "fst ` set (fold merge_item inc m) = fst ` set m \<union> country ` set inc"
  by (induction inc arbitrary: m) (auto simp: keys_merge_item)

lemma merge_details_countries:
  "country ` set (merge_details base inc) = country ` set base \<union> country ` set inc"
proof -
  have "keyed (insert_all base []) \<and> distinct (map fst (insert_all base []))"
    by (rule insert_all_inv) (simp_all add: keyed_def)
  then have "keyed (fold merge_item inc (insert_all base []))"
    by (simp add: merge_all_inv)
  then have "map country (merge_details base inc) =
             map fst (fold merge_item inc (insert_all base []))"
    by (simp add: merge_details_def countries_values del: map_map)
  then have "set (map country (merge_details base inc)) =
             set (map fst (fold merge_item inc (insert_all base [])))"
    by simp
  then show ?thesis
    using keys_merge_all [of inc "insert_all base []"] keys_insert_all [of base "[]"]
    by simp
qed

lemma values_map_set:
  assumes "\<forall>v \<in> snd ` set m. P v" and "P v'"
  shows "\<forall>v \<in> snd ` set (map_set k v' m). P v"
proof
  fix v
  assume "v \<in> snd ` set (map_set k v' m)"
  then obtain k0 where "(k0, v) \<in> set (map_set k v' m)" by auto
  then have "(k0, v) = (k, v') \<or> (k0, v) \<in> set m"
    using set_map_set [of k v' m] by blast
  then show "P v"
  proof
    assume "(k0, v) = (k, v')"
    then show ?thesis using assms(2) by simp
  next
    assume "(k0, v) \<in> set m"
    then have "v \<in> snd ` set m" by force
    then show ?thesis using assms(1) by blast
  qed
qed

lemma values_insert_all:
  "\<forall>v \<in> snd ` set m. P v \<Longrightarrow> \<forall>d \<in> set base. P d \<Longrightarrow>
     \<forall>v \<in> snd ` set (insert_all base m). P v"
  unfolding insert_all_def
proof (induction base arbitrary: m)
  case Nil
  then show ?case by simp
next
  case (Cons b base)
  have "\<forall>v \<in> snd ` set (map_set (country b) b m). P v"
    using Cons.prems by (intro values_map_set) simp_all
  moreover have "\<forall>d \<in> set base. P d" using Cons.prems(2) by simp
  ultimately have "\<forall>v \<in> snd ` set (fold (\<lambda>item. map_set (country item) item) base
      (map_set (country b) b m)). P v" by (rule Cons.IH)
  then show ?case by simp
qed

lemma nonneg_accumulate:
  "nonneg_money e \<Longrightarrow> nonneg_money n \<Longrightarrow> nonneg_money (accumulate e n)"
  by (cases "cost e"; cases "revenue e"; cases "cost n"; cases "revenue n")
     (simp_all add: nonneg_money_def accumulate_def Let_def)

lemma values_merge_item:
  assumes "\<forall>v \<in> snd ` set m. nonneg_money v" "nonneg_money n"
  shows "\<forall>v \<in> snd ` set (merge_item n m). nonneg_money v"
proof (cases "map_of m (country n)")
  case None
  then have "merge_item n m = map_set (country n) n m" by (simp add: merge_item_def)
  then show ?thesis
    using values_map_set [where P = nonneg_money, OF assms(1) assms(2)] by simp
next
  case (Some e)
  then have "(country n, e) \<in> set m" by (rule map_of_SomeD)
  then have "e \<in> snd ` set m" by force
  then have "nonneg_money e" using assms(1) by blast
  then have acc: "nonneg_money (accumulate e n)" using assms(2) by (rule nonneg_accumulate)
  have "merge_item n m = map_set (country n) (accumulate e n) m"
    using Some by (simp add: merge_item_def)
  then show ?thesis
    using values_map_set [where P = nonneg_money, OF assms(1) acc] by simp
qed

lemma values_merge_all:
  "\<forall>v \<in> snd ` set m. nonneg_money v \<Longrightarrow> \<forall>d \<in> set inc. nonneg_money d \<Longrightarrow>
     \<forall>v \<in> snd ` set (fold merge_item inc m). nonneg_money v"
proof (induction inc arbitrary: m)
  case Nil
  then show ?case by simp
next
  case (Cons n inc)
  have "\<forall>v \<in> snd ` set (merge_item n m). nonneg_money v"
    using Cons.prems by (intro values_merge_item) simp_all
  moreover have "\<forall>d \<in> set inc. nonneg_money d" using Cons.prems(2) by simp
  ultimately have "\<forall>v \<in> snd ` set (fold merge_item inc (merge_item n m)). nonneg_money v"
    by (rule Cons.IH)
  then show ?case by simp
qed

lemma merge_details_nonneg:
  assumes "\<forall>d \<in> set base. nonneg_money d" "\<forall>d \<in> set inc. nonneg_money d"
  shows "\<forall>d \<in> set (merge_details base inc). nonneg_money d"
proof -
  have "\<forall>v \<in> snd ` set (insert_all base []). nonneg_money v"
    using assms(1) by (intro values_insert_all) simp_all
  then have "\<forall>v \<in> snd ` set (fold merge_item inc (insert_all base [])). nonneg_money v"
    using assms(2) by (rule values_merge_all)
  then show ?thesis by (simp add: merge_details_def)
qed

lemma sum_map_nonneg: "\<forall>x \<in> set xs. (0::rat) \<le> f x \<Longrightarrow> 0 \<le> sum_list (map f xs)"
  by (induction xs) simp_all

lemma aggregate_sums:
  assumes "\<forall>d \<in> set ds. is_num (cost d) \<and> is_num (revenue d)"
  shows "aggregate ds =
     (let tc = sum_list (map (\<lambda>d. num0 (cost d)) ds);
          tr = sum_list (map (\<lambda>d. num0 (revenue d)) ds)
      in \<lparr>totalCost = Num tc, totalRevenue = Num tr, netProfit = Num (tr - tc),
          totalRoi = Num (if 0 < tc then (tr - tc) / tc * 100 else 0)\<rparr>)"
  using assms by (simp add: aggregate_def Let_def fold_add_total)

lemma ingest_Some:
  "details p = Some d \<Longrightarrow>
     ingest (Some p) =
       Some (p\<lparr>summary := Some (case summary p of Some s \<Rightarrow> s | None \<Rightarrow> synthesize_summary d),
               badCountries := Some (case badCountries p of Some l \<Rightarrow> l | None \<Rightarrow> []),
               recommendations := Some (case recommendations p of Some l \<Rightarrow> l | None \<Rightarrow> [])\<rparr>)"
  by (cases p) (auto simp: ingest_def Let_def split: option.splits)

subsection \<open>The summary of an installed result\<close>

text \<open>
  Claim C2, as stated, fails on the load path: a fresh session that imports a report
  whose summary says 999 while its only record costs 100 installs the summary 999.
\<close>

theorem carried_summary_counterexample:
  "install (Some stale_report) fresh_app =
     (fresh_app\<lparr>result := Some stale_report, appState := RESULTS\<rparr>, None) \<and>
   details stale_report =
     Some [\<lparr>country = Some ''India'', cost = Num 100, revenue = Num 150,
            profit = Num 50, roi = Num 50, status = Some PROFITABLE\<rparr>] \<and>
   aggregate [\<lparr>country = Some ''India'', cost = Num 100, revenue = Num 150,
               profit = Num 50, roi = Num 50, status = Some PROFITABLE\<rparr>] =
     \<lparr>totalCost = Num 100, totalRevenue = Num 150, netProfit = Num 50, totalRoi = Num 50\<rparr> \<and>
   summary stale_report =
     Some \<lparr>totalCost = Num 999, totalRevenue = Num 0, netProfit = Num (- 999),
           totalRoi = Num (- 100)\<rparr>"
  by (simp add: install_def ingest_def stale_report_def fresh_app_def aggregate_def Let_def)

text \<open>
  Claim C2, amended. A merge always computes the summary from the merged details: the
  totals are the sums of their cost and revenue fields when these are numbers, net
  profit the difference and ROI as in the claim. A direct load computes the summary
  from the details only when the imported object has none, a missing value counting
  as 0; a summary that the object brings is installed as it is.
\<close>

theorem installed_summary:
  assumes "details p = Some d"
  shows "(result st = None \<longrightarrow>
           install (Some p) st = (st\<lparr>result := ingest (Some p), appState := RESULTS\<rparr>, None) \<and>
           map_option details (ingest (Some p)) = Some (Some d) \<and>
           map_option summary (ingest (Some p)) =
             Some (Some (case summary p of Some s \<Rightarrow> s | None \<Rightarrow> synthesize_summary d))) \<and>
         (\<forall>cur bd bb br.
            result st = Some cur \<and> details cur = Some bd \<and>
            badCountries cur = Some bb \<and> recommendations cur = Some br \<longrightarrow>
            (\<exists>m. install (Some p) st = (st\<lparr>result := Some m\<rparr>, Some MergedOk) \<and>
                 details m = Some (merge_details bd d) \<and>
                 summary m = Some (aggregate (merge_details bd d)))) \<and>
         (\<forall>ds. (\<forall>x \<in> set ds. is_num (cost x) \<and> is_num (revenue x)) \<longrightarrow>
            aggregate ds =
              (let tc = sum_list (map (\<lambda>x. num0 (cost x)) ds);
                   tr = sum_list (map (\<lambda>x. num0 (revenue x)) ds)
               in \<lparr>totalCost = Num tc, totalRevenue = Num tr, netProfit = Num (tr - tc),
                   totalRoi = Num (if 0 < tc then (tr - tc) / tc * 100 else 0)\<rparr>))"
proof (intro conjI allI impI)
  assume "result st = None"
  then show "install (Some p) st = (st\<lparr>result := ingest (Some p), appState := RESULTS\<rparr>, None)"
    using assms by (simp add: install_def ingest_Some)
next
  show "map_option details (ingest (Some p)) = Some (Some d)"
    using assms by (simp add: ingest_Some)
next
  show "map_option summary (ingest (Some p)) =
          Some (Some (case summary p of Some s \<Rightarrow> s | None \<Rightarrow> synthesize_summary d))"
    using assms by (simp add: ingest_Some)
next
  fix cur bd bb br
  assume c: "result st = Some cur \<and> details cur = Some bd \<and>
          badCountries cur = Some bb \<and> recommendations cur = Some br"
  obtain r where r: "ingest (Some p) = Some r" "details r = Some d"
    using assms by (simp add: ingest_Some)
  obtain m where m: "merge_results cur r = Some m" "details m = Some (merge_details bd d)"
    "summary m = Some (aggregate (merge_details bd d))"
    using c r(2) merge_results_Some [of cur bd r d bb br] by simp
  have "install (Some p) st = (st\<lparr>result := Some m\<rparr>, Some MergedOk)"
    using c r(1) m(1) by (simp add: install_def)
  then show "\<exists>m. install (Some p) st = (st\<lparr>result := Some m\<rparr>, Some MergedOk) \<and>
                 details m = Some (merge_details bd d) \<and>
                 summary m = Some (aggregate (merge_details bd d))"
    using m(2,3) by blast
next
  fix ds :: "CountryData list"
  assume "\<forall>x \<in> set ds. is_num (cost x) \<and> is_num (revenue x)"
  then show "aggregate ds =
              (let tc = sum_list (map (\<lambda>x. num0 (cost x)) ds);
                   tr = sum_list (map (\<lambda>x. num0 (revenue x)) ds)
               in \<lparr>totalCost = Num tc, totalRevenue = Num tr, netProfit = Num (tr - tc),
                   totalRoi = Num (if 0 < tc then (tr - tc) / tc * 100 else 0)\<rparr>)"
    by (rule aggregate_sums)
qed

theorem installed_summary_witness:
  "details stale_report =
     Some [\<lparr>country = Some ''India'', cost = Num 100, revenue = Num 150,
            profit = Num 50, roi = Num 50, status = Some PROFITABLE\<rparr>] \<and>
   result fresh_app = None \<and>
   install (Some stale_report) fresh_app =
     (fresh_app\<lparr>result := Some stale_report, appState := RESULTS\<rparr>, None) \<and>
   result (fresh_app\<lparr>result := Some base_report\<rparr>) = Some base_report \<and>
   map_option summary (result (fst (install (Some stale_report)
      (fresh_app\<lparr>result := Some base_report\<rparr>)))) =
     Some (Some \<lparr>totalCost = Num 200, totalRevenue = Num 300, netProfit = Num 100,
                 totalRoi = Num 50\<rparr>)"
  using installed_summary [where p = stale_report and st = fresh_app]
    installed_summary [where p = stale_report and st = "fresh_app\<lparr>result := Some base_report\<rparr>"]
  by (simp add: stale_report_def fresh_app_def base_report_def install_def ingest_def
      merge_results_def merge_details_def insert_all_def merge_item_def accumulate_def
      aggregate_def array_from_set_def Let_def)

subsection \<open>Records without a country\<close>

text \<open>
  Claim C3, as stated, fails: records whose country is empty, blank or absent stay in
  the ingested result and enter the merged one.
\<close>

theorem blank_country_kept:
  "countries_of (ingest (Some anonymous_report)) = [Some [], Some ''  '', None] \<and>
   countries_of (result (fst (install (Some anonymous_report) fresh_app))) =
     [Some [], Some ''  '', None] \<and>
   countries_of (result (fst (install (Some anonymous_report)
      (fresh_app\<lparr>result := Some base_report\<rparr>)))) =
     [Some ''India'', Some [], Some ''  '', None]"
  by (simp add: countries_of_def anonymous_report_def fresh_app_def base_report_def
      install_def ingest_def merge_results_def merge_details_def insert_all_def
      merge_item_def Let_def)

text \<open>
  Claim C3, amended. Ingestion passes no record through a normaliser and drops none:
  the details of the ingested result are the details of the payload, whatever their
  countries, and the countries of a merged result are those of the current result
  together with those of the payload.
\<close>

theorem ingest_keeps_every_record:
  assumes "details p = Some d"
  shows "(\<exists>r. ingest (Some p) = Some r \<and> details r = Some d) \<and>
         countries_of (ingest (Some p)) = map country d \<and>
         country ` set (merge_details base d) = country ` set base \<union> country ` set d"
  using assms by (simp add: ingest_Some countries_of_def merge_details_countries)

theorem ingest_keeps_every_record_witness:
  "details anonymous_report =
     Some [\<lparr>country = Some [], cost = Num 1, revenue = Num 2,
            profit = Num 1, roi = Num 100, status = Some PROFITABLE\<rparr>,
           \<lparr>country = Some ''  '', cost = Num 3, revenue = Num 3,
            profit = Num 0, roi = Num 0, status = Some BREAK_EVEN\<rparr>,
           \<lparr>country = None, cost = Num 5, revenue = Num 4,
            profit = Num (- 1), roi = Num (- 20), status = Some LOSS\<rparr>] \<and>
   countries_of (ingest (Some anonymous_report)) = [Some [], Some ''  '', None]"
  using ingest_keeps_every_record [where p = anonymous_report]
  by (simp add: anonymous_report_def)

subsection \<open>Negative and missing amounts\<close>

text \<open>
  Claim C9, as stated, fails: a negative cost stays in its record and in the
  synthesized total.
\<close>

theorem negative_cost_kept:
  "ingest (Some debit_report) =
     Some (debit_report\<lparr>summary := Some \<lparr>totalCost = Num (- 5), totalRevenue = Num 0,
                                         netProfit = Num 5, totalRoi = Num 0\<rparr>\<rparr>) \<and>
   details debit_report =
     Some [\<lparr>country = Some ''India'', cost = Num (- 5), revenue = Undefined,
            profit = Undefined, roi = Undefined, status = None\<rparr>]"
  by (simp add: debit_report_def ingest_def synthesize_summary_def Let_def)

text \<open>
  Claim C9, amended. A missing cost or revenue counts as 0 in the totals that the
  program computes through \<open>|| 0\<close>: the summary synthesized at ingestion and the
  summary that the dashboard shows once a country is hidden. The records stay as they
  came and a negative value is summed as it is, so such a total is not negative when no
  cost or revenue that enters it is. A merge of records whose cost and revenue are
  numbers that are not negative gives such records and such totals; a merge of records
  with a missing cost or revenue is not part of the amended claim.
\<close>

theorem missing_as_zero_negative_kept:
  "(details p = Some d \<and> summary p = None \<longrightarrow>
      (\<exists>r s. ingest (Some p) = Some r \<and> details r = Some d \<and> summary r = Some s \<and>
         totalCost s = Num (sum_list (map (\<lambda>x. num0 (cost x)) d)) \<and>
         totalRevenue s = Num (sum_list (map (\<lambda>x. num0 (revenue x)) d)) \<and>
         ((\<forall>x \<in> set d. 0 \<le> num0 (cost x) \<and> 0 \<le> num0 (revenue x)) \<longrightarrow>
            0 \<le> num0 (totalCost s) \<and> 0 \<le> num0 (totalRevenue s)))) \<and>
   (hiddenCountries v \<noteq> [] \<longrightarrow>
      totalCost (summary_shown v) = Num (sum_list (map (\<lambda>x. num0 (cost x)) (visibleData v))) \<and>
      totalRevenue (summary_shown v) =
        Num (sum_list (map (\<lambda>x. num0 (revenue x)) (visibleData v))) \<and>
      ((\<forall>x \<in> set (visibleData v). 0 \<le> num0 (cost x) \<and> 0 \<le> num0 (revenue x)) \<longrightarrow>
         0 \<le> num0 (totalCost (summary_shown v)) \<and>
         0 \<le> num0 (totalRevenue (summary_shown v)))) \<and>
   ((\<forall>x \<in> set base. nonneg_money x) \<and> (\<forall>x \<in> set inc. nonneg_money x) \<longrightarrow>
      (\<forall>x \<in> set (merge_details base inc). nonneg_money x) \<and>
      is_num (totalCost (aggregate (merge_details base inc))) \<and>
      0 \<le> num0 (totalCost (aggregate (merge_details base inc))) \<and>
      is_num (totalRevenue (aggregate (merge_details base inc))) \<and>
      0 \<le> num0 (totalRevenue (aggregate (merge_details base inc))))"
proof (intro conjI)
  show "details p = Some d \<and> summary p = None \<longrightarrow>
      (\<exists>r s. ingest (Some p) = Some r \<and> details r = Some d \<and> summary r = Some s \<and>
         totalCost s = Num (sum_list (map (\<lambda>x. num0 (cost x)) d)) \<and>
         totalRevenue s = Num (sum_list (map (\<lambda>x. num0 (revenue x)) d)) \<and>
         ((\<forall>x \<in> set d. 0 \<le> num0 (cost x) \<and> 0 \<le> num0 (revenue x)) \<longrightarrow>
            0 \<le> num0 (totalCost s) \<and> 0 \<le> num0 (totalRevenue s)))"
    by (simp add: ingest_Some synthesize_summary_sums Let_def sum_map_nonneg)
next
  show "hiddenCountries v \<noteq> [] \<longrightarrow>
      totalCost (summary_shown v) = Num (sum_list (map (\<lambda>x. num0 (cost x)) (visibleData v))) \<and>
      totalRevenue (summary_shown v) =
        Num (sum_list (map (\<lambda>x. num0 (revenue x)) (visibleData v))) \<and>
      ((\<forall>x \<in> set (visibleData v). 0 \<le> num0 (cost x) \<and> 0 \<le> num0 (revenue x)) \<longrightarrow>
         0 \<le> num0 (totalCost (summary_shown v)) \<and>
         0 \<le> num0 (totalRevenue (summary_shown v)))"
    by (simp add: summary_shown_def Let_def fold_or0_sum sum_map_nonneg)
next
  show "(\<forall>x \<in> set base. nonneg_money x) \<and> (\<forall>x \<in> set inc. nonneg_money x) \<longrightarrow>
      (\<forall>x \<in> set (merge_details base inc). nonneg_money x) \<and>
      is_num (totalCost (aggregate (merge_details base inc))) \<and>
      0 \<le> num0 (totalCost (aggregate (merge_details base inc))) \<and>
      is_num (totalRevenue (aggregate (merge_details base inc))) \<and>
      0 \<le> num0 (totalRevenue (aggregate (merge_details base inc)))"
  proof (rule impI)
    assume a: "(\<forall>x \<in> set base. nonneg_money x) \<and> (\<forall>x \<in> set inc. nonneg_money x)"
    then have m: "\<forall>x \<in> set (merge_details base inc). nonneg_money x"
      using merge_details_nonneg [of base inc] by blast
    then have n: "\<forall>x \<in> set (merge_details base inc). is_num (cost x) \<and> is_num (revenue x)"
      by (simp add: nonneg_money_def)
    have "0 \<le> sum_list (map (\<lambda>x. num0 (cost x)) (merge_details base inc))"
         "0 \<le> sum_list (map (\<lambda>x. num0 (revenue x)) (merge_details base inc))"
      using m by (simp_all add: sum_map_nonneg nonneg_money_def)
    then show "(\<forall>x \<in> set (merge_details base inc). nonneg_money x) \<and>
        is_num (totalCost (aggregate (merge_details base inc))) \<and>
        0 \<le> num0 (totalCost (aggregate (merge_details base inc))) \<and>
        is_num (totalRevenue (aggregate (merge_details base inc))) \<and>
        0 \<le> num0 (totalRevenue (aggregate (merge_details base inc)))"
      using m by (simp add: aggregate_sums [OF n] Let_def)
  qed
qed

theorem missing_as_zero_negative_kept_witness:
  "details partial_report =
     Some [\<lparr>country = Some ''India'', cost = Undefined, revenue = Num 150,
            profit = Undefined, roi = Undefined, status = None\<rparr>,
           \<lparr>country = Some ''Brazil'', cost = Num 10, revenue = Undefined,
            profit = Undefined, roi = Undefined, status = None\<rparr>] \<and>
   summary partial_report = None \<and>
   map_option summary (ingest (Some partial_report)) =
     Some (Some \<lparr>totalCost = Num 10, totalRevenue = Num 150, netProfit = Num 140,
                 totalRoi = Num 1400\<rparr>) \<and>
   map_option details (ingest (Some partial_report)) = Some (details partial_report) \<and>
   summary debit_report = None \<and>
   map_option (map_option totalCost \<circ> summary) (ingest (Some debit_report)) =
     Some (Some (Num (- 5))) \<and>
   hiddenCountries \<lparr>data = partial_report, hiddenCountries = [Some ''Brazil'']\<rparr> \<noteq> [] \<and>
   summary_shown \<lparr>data = partial_report, hiddenCountries = [Some ''Brazil'']\<rparr> =
     \<lparr>totalCost = Num 0, totalRevenue = Num 150, netProfit = Num 150, totalRoi = Num 0\<rparr> \<and>
   nonneg_money \<lparr>country = Some ''India'', cost = Num 100, revenue = Num 150,
                 profit = Num 50, roi = Num 50, status = Some PROFITABLE\<rparr> \<and>
   nonneg_money \<lparr>country = Some ''India'', cost = Num 50, revenue = Num 20,
                 profit = Num (- 30), roi = Num (- 60), status = Some LOSS\<rparr> \<and>
   map cost (merge_details
       [\<lparr>country = Some ''India'', cost = Num 100, revenue = Num 150,
         profit = Num 50, roi = Num 50, status = Some PROFITABLE\<rparr>]
       [\<lparr>country = Some ''India'', cost = Num 50, revenue = Num 20,
         profit = Num (- 30), roi = Num (- 60), status = Some LOSS\<rparr>]) = [Num 150]"
  using missing_as_zero_negative_kept [where p = partial_report
      and d = "[\<lparr>country = Some ''India'', cost = Undefined, revenue = Num 150,
                 profit = Undefined, roi = Undefined, status = None\<rparr>,
                \<lparr>country = Some ''Brazil'', cost = Num 10, revenue = Undefined,
                 profit = Undefined, roi = Undefined, status = None\<rparr>]"
      and v = "\<lparr>data = partial_report, hiddenCountries = [Some ''Brazil'']\<rparr>"
      and base = "[\<lparr>country = Some ''India'', cost = Num 100, revenue = Num 150,
         profit = Num 50, roi = Num 50, status = Some PROFITABLE\<rparr>]"
      and inc = "[\<lparr>country = Some ''India'', cost = Num 50, revenue = Num 20,
         profit = Num (- 30), roi = Num (- 60), status = Some LOSS\<rparr>]"]
    missing_as_zero_negative_kept [where p = debit_report
      and d = "[\<lparr>country = Some ''India'', cost = Num (- 5), revenue = Undefined,
            profit = Undefined, roi = Undefined, status = None\<rparr>]"]
  by (simp add: partial_report_def debit_report_def nonneg_money_def merge_details_def
      insert_all_def merge_item_def accumulate_def ingest_def synthesize_summary_def
      summary_shown_def visibleData_def details_of_def Let_def)

subsection \<open>Searching the exported document\<close>

lemma strip_prefix_line_end:
  "strip_prefix pat s = None \<Longrightarrow> s \<noteq> [] \<Longrightarrow> last s \<notin> set pat \<Longrightarrow>
     strip_prefix pat (s @ rest) = None"
proof (induction pat s rule: strip_prefix.induct)
  case (1 s)
  then show ?case by simp
next
  case (2 p ps)
  then show ?case by simp
next
  case (3 p ps c cs)
  show ?case
  proof (cases "p = c")
    case False
    then show ?thesis by simp
  next
    case True
    show ?thesis
    proof (cases "cs = []")
      case True
      then have "last (c # cs) = p" using \<open>p = c\<close> by simp
      then show ?thesis using "3.prems"(3) by simp
    next
      case False
      then show ?thesis using 3 \<open>p = c\<close> by simp
    qed
  qed
qed

lemma find_after_None_strip: "find_after pat s = None \<Longrightarrow> strip_prefix pat s = None"
  by (cases s) (auto split: option.splits)

lemma find_after_skip_line:
  "find_after pat l = None \<Longrightarrow> l \<noteq> [] \<Longrightarrow> last l \<notin> set pat \<Longrightarrow>
     find_after pat (l @ rest) = find_after pat rest"
proof (induction l)
  case Nil
  then show ?case by simp
next
  case (Cons c cs)
  have sp: "strip_prefix pat ((c # cs) @ rest) = None"
    using Cons.prems by (intro strip_prefix_line_end find_after_None_strip) simp_all
  have fa: "find_after pat cs = None"
    using Cons.prems(1) by (simp split: option.splits)
  show ?case
  proof (cases "cs = []")
    case True
    then show ?thesis using sp by simp
  next
    case False
    then have "find_after pat (cs @ rest) = find_after pat rest"
      using Cons.IH fa Cons.prems(3) by simp
    then show ?thesis using sp by simp
  qed
qed

lemma find_after_skip_lines:
  assumes "CHR 0x0A \<notin> set pat"
  shows "\<forall>l \<in> set ls. line_without pat l \<Longrightarrow>
     find_after pat (concat ls @ rest) = find_after pat rest"
proof (induction ls)
  case Nil
  then show ?case by simp
next
  case (Cons l ls)
  have "find_after pat (l @ concat ls @ rest) = find_after pat (concat ls @ rest)"
    using Cons.prems assms by (intro find_after_skip_line) (simp_all add: line_without_def)
  then show ?case using Cons by simp
qed

lemma html_head_lines_without_marker:
  "\<forall>l \<in> set html_head_lines. line_without ''const DATA = {'' l"
  by code_simp

lemma find_after_document:
  "find_after ''const DATA = {'' (html_document (CHR ''{'' # body)) =
     Some (body @ '';\<newline>'' @ concat html_tail_lines)"
proof -
  have "find_after ''const DATA = {'' (html_document (CHR ''{'' # body)) =
        find_after ''const DATA = {''
          (''        const DATA = '' @ (CHR ''{'' # body) @ '';\<newline>'' @ concat html_tail_lines)"
    unfolding html_document_def
    by (rule find_after_skip_lines [OF _ html_head_lines_without_marker]) simp
  then show ?thesis by simp
qed

lemma match_DATA_document:
  "match_DATA (html_document (CHR ''{'' # body)) =
     map_option (\<lambda>b. ''{'' @ b @ ''}'')
       (take_until ''};'' (body @ '';\<newline>'' @ concat html_tail_lines))"
  by (simp add: match_DATA_def find_after_document split: option.splits)

lemma strip_prefix_longer:
  "strip_prefix pat s = None \<Longrightarrow> length pat \<le> length s \<Longrightarrow>
     strip_prefix pat (s @ rest) = None"
  by (induction pat s rule: strip_prefix.induct) (auto split: if_splits)

lemma strip_prefix_self: "strip_prefix pat (pat @ rest) = Some rest"
  by (induction pat) simp_all

lemma take_until_found:
  "pat \<noteq> [] \<Longrightarrow> take_until pat (pat @ rest) = Some []"
  by (cases pat) (simp_all add: strip_prefix_self [of "_ # _", simplified])

lemma take_until_exact:
  assumes "pat \<noteq> []"
  shows "take_until pat (b @ pat) = Some b \<Longrightarrow> take_until pat (b @ pat @ rest) = Some b"
proof (induction b)
  case Nil
  then show ?case using assms take_until_found [of pat rest] by simp
next
  case (Cons c cs)
  have n: "strip_prefix pat (c # cs @ pat) = None"
    using Cons.prems by (auto split: option.splits)
  have "length pat \<le> length (c # cs @ pat)" by simp
  then have "strip_prefix pat ((c # cs @ pat) @ rest) = None"
    using n by (rule strip_prefix_longer [rotated])
  moreover have "take_until pat (cs @ pat) = Some cs"
    using Cons.prems n by (auto split: option.splits)
  ultimately show ?case using Cons.IH by simp
qed

text \<open>
  When the payload is an object text whose first \<open>};\<close> would be the one that the
  template puts after it, the pattern captures the payload exactly.
\<close>

lemma html_capture_exact:
  assumes "take_until ''};'' (b @ ''};'') = Some b"
  shows "match_DATA (html_document (''{'' @ b @ ''}'')) = Some (''{'' @ b @ ''}'')"
proof -
  have "take_until ''};'' (b @ ''};'' @ (''\<newline>'' @ concat html_tail_lines)) = Some b"
    using assms by (intro take_until_exact) simp_all
  then show ?thesis
    using match_DATA_document [of "b @ ''}''"] by simp
qed

subsection \<open>Round trips through the exported files\<close>

text \<open>What the parser does on the pieces of a printed text.\<close>

lemma hex_digits_read_back: "\<forall>n \<in> set [0..<16]. hex_value (hex_digit n) = Some n"
  by code_simp

lemma hex_value_hex_digit: "n < 16 \<Longrightarrow> hex_value (hex_digit n) = Some n"
  using hex_digits_read_back by simp

lemma parse_string_escape:
  "parse_string (escape_char c @ t) =
     (case parse_string t of Some (s, r) \<Rightarrow> Some (c # s, r) | None \<Rightarrow> None)"
proof -
  consider (q) "c = CHR 0x22" | (b) "c = CHR 0x5C" | (c8) "c = CHR 0x08" | (c9) "c = CHR 0x09"
    | (ca) "c = CHR 0x0A" | (cc) "c = CHR 0x0C" | (cd) "c = CHR 0x0D"
    | (ctl) "c \<noteq> CHR 0x22" "c \<noteq> CHR 0x5C" "c \<noteq> CHR 0x08" "c \<noteq> CHR 0x09" "c \<noteq> CHR 0x0A"
        "c \<noteq> CHR 0x0C" "c \<noteq> CHR 0x0D" "of_char c < (0x20 :: nat)"
    | (plain) "c \<noteq> CHR 0x22" "c \<noteq> CHR 0x5C" "\<not> of_char c < (0x20 :: nat)"
    by (cases "of_char c < (0x20 :: nat)") auto
  then show ?thesis
  proof cases
    case ctl
    let ?n = "of_char c :: nat"
    have d: "?n div 16 < 16" "?n mod 16 < 16" using ctl(8) by simp_all
    have small: "?n div 16 * 16 + ?n mod 16 = ?n" by simp
    have "?n div 16 < 2" using ctl(8) by simp
    have cu: "code_unit ?n = [c]" using ctl(8) by (simp add: code_unit_def)
    have h0: "hex_value CHR ''0'' = Some 0" by (simp add: hex_value_def)
    show ?thesis using ctl
      by (simp add: escape_char_def hex_value_hex_digit [OF d(1)] hex_value_hex_digit [OF d(2)]
          h0 small cu split: option.splits)
  qed (simp_all add: escape_char_def unescape_def split: option.splits)
qed

lemma parse_string_body:
  "parse_string (concat (map escape_char s) @ CHR 0x22 # rest) = Some (s, rest)"
  by (induction s) (simp_all add: parse_string_escape)

lemma parse_string_quote: "quote s @ rest = CHR 0x22 # concat (map escape_char s) @ CHR 0x22 # rest"
  by (simp add: quote_def)

lemma is_num_char_simps:
  "\<not> is_num_char CHR 0x22" "\<not> is_num_char CHR ''[''" "\<not> is_num_char CHR ''{''"
  "\<not> is_num_char CHR '']''" "\<not> is_num_char CHR ''}''" "\<not> is_num_char CHR '',''"
  "\<not> is_num_char CHR '':''" "\<not> is_num_char CHR 0x0A" "\<not> is_num_char CHR 0x20"
  "\<not> is_num_char CHR ''n''" "\<not> is_num_char CHR ''t''" "\<not> is_num_char CHR ''f''"
  by (simp_all add: is_num_char_def)

lemma is_ws_simps:
  "is_ws CHR 0x0A" "is_ws CHR 0x20"
  "\<not> is_ws CHR 0x22" "\<not> is_ws CHR ''[''" "\<not> is_ws CHR ''{''"
  "\<not> is_ws CHR '']''" "\<not> is_ws CHR ''}''" "\<not> is_ws CHR '',''"
  "\<not> is_ws CHR '':''" "\<not> is_ws CHR ''n''" "\<not> is_ws CHR ''t''" "\<not> is_ws CHR ''f''"
  by (simp_all add: is_ws_def)

lemma is_num_char_not_ws: "is_num_char c \<Longrightarrow> \<not> is_ws c"
  by (auto simp: is_num_char_def is_ws_def)

lemma skip_ws_append: "list_all is_ws w \<Longrightarrow> skip_ws (w @ s) = skip_ws s"
  by (induction w) (simp_all add: skip_ws_def)

lemma skip_ws_Cons: "\<not> is_ws c \<Longrightarrow> skip_ws (c # s) = c # s"
  by (simp add: skip_ws_def)

lemma ws_newline: "list_all is_ws (newline ind)"
  by (simp add: newline_def is_ws_simps list_all_iff)

lemma is_ws_not_num: "is_ws c \<Longrightarrow> \<not> is_num_char c"
  by (auto simp: is_num_char_def is_ws_def)

lemma boundary_simps:
  "boundary []" "\<not> is_num_char c \<Longrightarrow> boundary (c # t)"
  by (simp_all add: boundary_def)

lemma boundary_ws: "list_all is_ws w \<Longrightarrow> boundary t \<Longrightarrow> boundary (w @ t)"
  by (cases w) (simp_all add: boundary_def is_ws_not_num)

lemma span_token:
  "list_all P xs \<Longrightarrow> (case rest of [] \<Rightarrow> True | c # t \<Rightarrow> \<not> P c) \<Longrightarrow>
     takeWhile P (xs @ rest) = xs \<and> dropWhile P (xs @ rest) = rest"
  by (induction xs) (auto split: list.splits)

lemma strip_prefix_append: "strip_prefix pat (pat @ rest) = Some rest"
  by (induction pat) simp_all

text \<open>The first character of a printed value is neither white space nor a closing bracket.\<close>

lemma stringify_head:
  "printable sn rn j \<Longrightarrow>
     \<exists>c t. JSON_stringify sn ind j = c # t \<and> \<not> is_ws c \<and> c \<noteq> CHR '']'' \<and> c \<noteq> CHR ''}''"
proof (cases j)
  case (JNum x)
  assume "printable sn rn j"
  then obtain c t where ct: "sn x = c # t" "is_num_char c"
    using JNum by (cases "sn x") (auto simp: reads_back_def)
  then have "\<not> is_ws c" "c \<noteq> CHR '']''" "c \<noteq> CHR ''}''"
    by (auto simp: is_num_char_def is_ws_def)
  then show ?thesis using JNum ct by simp
qed (auto simp: quote_def is_ws_simps)

lemma parse_value_atom:
  assumes "list_all is_ws w"
  shows "parse_value rn (Suc m) (w @ ''null'' @ rest) = Some (JNull, rest)"
    and "parse_value rn (Suc m) (w @ ''true'' @ rest) = Some (JBool True, rest)"
    and "parse_value rn (Suc m) (w @ ''false'' @ rest) = Some (JBool False, rest)"
    and "parse_value rn (Suc m) (w @ quote s @ rest) = Some (JStr s, rest)"
    and "parse_value rn (Suc m) (w @ ''[]'' @ rest) = Some (JArr [], rest)"
    and "parse_value rn (Suc m) (w @ ''{}'' @ rest) = Some (JObj [], rest)"
  using assms
  by (simp_all add: skip_ws_append skip_ws_Cons is_ws_simps is_num_char_simps quote_def
      parse_string_body)

lemma parse_value_number:
  assumes "reads_back sn rn x" "list_all is_ws w" "boundary rest"
  shows "parse_value rn (Suc m) (w @ sn x @ rest) = Some (JNum x, rest)"
proof -
  obtain c t where ct: "sn x = c # t" "is_num_char c"
    using assms(1) by (cases "sn x") (auto simp: reads_back_def)
  then have nc: "\<not> is_ws c" "c \<noteq> CHR 0x22" "c \<noteq> CHR ''[''" "c \<noteq> CHR ''{''"
    by (auto simp: is_num_char_def is_ws_def)
  have sp: "takeWhile is_num_char (sn x @ rest) = sn x \<and>
            dropWhile is_num_char (sn x @ rest) = rest"
    using assms(1,3) by (intro span_token) (simp_all add: reads_back_def boundary_def)
  have "skip_ws (w @ sn x @ rest) = c # t @ rest"
    using assms(2) ct nc by (simp add: skip_ws_append skip_ws_Cons)
  moreover have "takeWhile is_num_char (c # t @ rest) = sn x"
    "dropWhile is_num_char (c # t @ rest) = rest"
    using sp ct by simp_all
  ultimately show ?thesis
    using nc ct(2) assms(1) by (simp add: reads_back_def)
qed

lemma parse_value_array:
  assumes vs: "vs \<noteq> []" "printable_elems sn rn vs"
    and elems: "parse_elems rn m (newline (ind + 2) @ JSON_stringify_elems sn (ind + 2) vs @
                  newline ind @ CHR '']'' # rest) = Some (vs, rest)"
    and w: "list_all is_ws w"
  shows "parse_value rn (Suc m) (w @ JSON_stringify sn ind (JArr vs) @ rest) = Some (JArr vs, rest)"
proof -
  obtain v vs' where v: "vs = v # vs'" using vs(1) by (cases vs) auto
  then have "printable sn rn v" using vs(2) by simp
  then obtain c t where ct: "JSON_stringify sn (ind + 2) v = c # t" "\<not> is_ws c" "c \<noteq> CHR '']''"
    using stringify_head by blast
  let ?r = "newline (ind + 2) @ JSON_stringify_elems sn (ind + 2) vs @ newline ind @ CHR '']'' # rest"
  have "skip_ws ?r = skip_ws (JSON_stringify_elems sn (ind + 2) vs @ newline ind @ CHR '']'' # rest)"
    by (rule skip_ws_append) (rule ws_newline)
  then obtain t' where sk: "skip_ws ?r = c # t'"
    using v ct by (simp add: skip_ws_Cons)
  have "skip_ws (w @ JSON_stringify sn ind (JArr vs) @ rest) = CHR ''['' # ?r"
    using w vs(1) by (simp add: skip_ws_append skip_ws_Cons is_ws_simps)
  then show ?thesis using sk ct(3) elems by (simp add: is_num_char_simps)
qed

lemma parse_value_object:
  assumes kvs: "kvs \<noteq> []"
    and members: "parse_members rn m (newline (ind + 2) @ JSON_stringify_members sn (ind + 2) kvs @
                  newline ind @ CHR ''}'' # rest) = Some (kvs, rest)"
    and w: "list_all is_ws w"
  shows "parse_value rn (Suc m) (w @ JSON_stringify sn ind (JObj kvs) @ rest) = Some (JObj kvs, rest)"
proof -
  obtain k v kvs' where v: "kvs = (k, v) # kvs'" using kvs by (cases kvs) auto
  let ?r = "newline (ind + 2) @ JSON_stringify_members sn (ind + 2) kvs @ newline ind @
            CHR ''}'' # rest"
  have "skip_ws ?r = skip_ws (JSON_stringify_members sn (ind + 2) kvs @ newline ind @ CHR ''}'' # rest)"
    by (rule skip_ws_append) (rule ws_newline)
  then obtain t' where sk: "skip_ws ?r = CHR 0x22 # t'"
    using v by (simp add: skip_ws_Cons quote_def is_ws_simps)
  have "skip_ws (w @ JSON_stringify sn ind (JObj kvs) @ rest) = CHR ''{'' # ?r"
    using w kvs by (simp add: skip_ws_append skip_ws_Cons is_ws_simps)
  then show ?thesis using sk members by (simp add: is_num_char_simps)
qed

lemma parse_elems_step:
  assumes first: "\<And>rest'. boundary rest' \<Longrightarrow>
                    parse_value rn m (w @ JSON_stringify sn ind v @ rest') = Some (v, rest')"
    and others: "vs \<noteq> [] \<Longrightarrow>
                   parse_elems rn m (newline ind @ JSON_stringify_elems sn ind vs @ w' @ CHR '']'' # rest) =
                     Some (vs, rest)"
    and w': "list_all is_ws w'"
  shows "parse_elems rn (Suc m) (w @ JSON_stringify_elems sn ind (v # vs) @ w' @ CHR '']'' # rest) =
           Some (v # vs, rest)"
proof (cases "vs = []")
  case True
  have "boundary (w' @ CHR '']'' # rest)"
    using w' by (intro boundary_ws) (simp_all add: boundary_simps is_num_char_simps)
  then have "parse_value rn m (w @ JSON_stringify sn ind v @ w' @ CHR '']'' # rest) =
               Some (v, w' @ CHR '']'' # rest)"
    by (rule first)
  moreover have "skip_ws (w' @ CHR '']'' # rest) = CHR '']'' # rest"
    using w' by (simp add: skip_ws_append skip_ws_Cons is_ws_simps)
  ultimately show ?thesis using True by simp
next
  case False
  let ?t = "CHR '','' # newline ind @ JSON_stringify_elems sn ind vs @ w' @ CHR '']'' # rest"
  have "boundary ?t" by (simp add: boundary_simps is_num_char_simps)
  then have "parse_value rn m (w @ JSON_stringify sn ind v @ ?t) = Some (v, ?t)"
    by (rule first)
  moreover have "skip_ws ?t = ?t" by (simp add: skip_ws_Cons is_ws_simps)
  ultimately show ?thesis using False others by simp
qed

lemma parse_members_step:
  assumes first: "\<And>rest'. boundary rest' \<Longrightarrow>
                    parse_value rn m ([CHR 0x20] @ JSON_stringify sn ind v @ rest') = Some (v, rest')"
    and others: "kvs \<noteq> [] \<Longrightarrow>
                   parse_members rn m (newline ind @ JSON_stringify_members sn ind kvs @ w' @
                     CHR ''}'' # rest) = Some (kvs, rest)"
    and w: "list_all is_ws w" and w': "list_all is_ws w'"
  shows "parse_members rn (Suc m) (w @ JSON_stringify_members sn ind ((k, v) # kvs) @ w' @
           CHR ''}'' # rest) = Some ((k, v) # kvs, rest)"
proof -
  define tl' where "tl' = (if kvs = [] then [] else CHR '','' # newline ind @
                       JSON_stringify_members sn ind kvs) @ w' @ CHR ''}'' # rest"
  have shape: "w @ JSON_stringify_members sn ind ((k, v) # kvs) @ w' @ CHR ''}'' # rest =
              w @ CHR 0x22 # concat (map escape_char k) @
                CHR 0x22 # CHR '':'' # [CHR 0x20] @ JSON_stringify sn ind v @ tl'"
    by (simp add: tl'_def quote_def)
  have b: "boundary tl'"
  proof (cases "kvs = []")
    case True
    have "boundary (w' @ CHR ''}'' # rest)"
      using w' by (intro boundary_ws) (simp_all add: boundary_simps is_num_char_simps)
    then show ?thesis using True by (simp add: tl'_def)
  next
    case False
    then show ?thesis by (simp add: tl'_def boundary_simps is_num_char_simps)
  qed
  have pv: "parse_value rn m ([CHR 0x20] @ JSON_stringify sn ind v @ tl') = Some (v, tl')"
    using b by (rule first)
  have sk1: "skip_ws (w @ CHR 0x22 # concat (map escape_char k) @
                CHR 0x22 # CHR '':'' # [CHR 0x20] @ JSON_stringify sn ind v @ tl') =
             CHR 0x22 # concat (map escape_char k) @
                CHR 0x22 # CHR '':'' # [CHR 0x20] @ JSON_stringify sn ind v @ tl'"
    using w by (simp add: skip_ws_append skip_ws_Cons is_ws_simps)
  have ps: "parse_string (concat (map escape_char k) @
                CHR 0x22 # CHR '':'' # [CHR 0x20] @ JSON_stringify sn ind v @ tl') =
            Some (k, CHR '':'' # [CHR 0x20] @ JSON_stringify sn ind v @ tl')"
    by (rule parse_string_body)
  have sk2: "skip_ws (CHR '':'' # [CHR 0x20] @ JSON_stringify sn ind v @ tl') =
             CHR '':'' # [CHR 0x20] @ JSON_stringify sn ind v @ tl'"
    by (simp add: skip_ws_Cons is_ws_simps)
  show ?thesis
  proof (cases "kvs = []")
    case True
    then have "skip_ws tl' = CHR ''}'' # rest"
      using w' by (simp add: tl'_def skip_ws_append skip_ws_Cons is_ws_simps)
    then show ?thesis
      unfolding shape using sk1 ps sk2 pv True by simp
  next
    case False
    then have "skip_ws tl' = CHR '','' # newline ind @ JSON_stringify_members sn ind kvs @ w' @
                 CHR ''}'' # rest"
      by (simp add: tl'_def skip_ws_Cons is_ws_simps)
    then show ?thesis
      unfolding shape using sk1 ps sk2 pv others [OF False] by simp
  qed
qed

text \<open>
  What \<open>JSON.stringify\<close> writes, \<open>JSON.parse\<close> reads back: with enough fuel the
  parser returns the printed value and stops where the printed text ends.
\<close>

lemma parse_stringify:
  "\<forall>n w rest. printable sn rn j \<longrightarrow> need j \<le> n \<longrightarrow> list_all is_ws w \<longrightarrow> boundary rest \<longrightarrow>
      parse_value rn n (w @ JSON_stringify sn ind j @ rest) = Some (j, rest)"
  "\<forall>n w w' rest. vs \<noteq> [] \<longrightarrow> printable_elems sn rn vs \<longrightarrow> need_elems vs \<le> n \<longrightarrow>
      list_all is_ws w \<longrightarrow> list_all is_ws w' \<longrightarrow>
      parse_elems rn n (w @ JSON_stringify_elems sn ind vs @ w' @ CHR '']'' # rest) = Some (vs, rest)"
  "\<forall>n w w' rest. kvs \<noteq> [] \<longrightarrow> printable_members sn rn kvs \<longrightarrow> need_members kvs \<le> n \<longrightarrow>
      list_all is_ws w \<longrightarrow> list_all is_ws w' \<longrightarrow>
      parse_members rn n (w @ JSON_stringify_members sn ind kvs @ w' @ CHR ''}'' # rest) =
        Some (kvs, rest)"
proof (induction sn ind j and sn ind vs and sn ind kvs
    rule: JSON_stringify_JSON_stringify_elems_JSON_stringify_members.induct)
  case (1 sn ind)
  show ?case
  proof (intro allI impI)
    fix n w rest
    assume "need JNull \<le> n" "list_all is_ws w"
    then obtain m where "n = Suc m" by (cases n) auto
    then show "parse_value rn n (w @ JSON_stringify sn ind JNull @ rest) = Some (JNull, rest)"
      using parse_value_atom(1) [OF \<open>list_all is_ws w\<close>] by simp
  qed
next
  case (2 sn ind b)
  show ?case
  proof (intro allI impI)
    fix n w rest
    assume "need (JBool b) \<le> n" "list_all is_ws w"
    then obtain m where "n = Suc m" by (cases n) auto
    then show "parse_value rn n (w @ JSON_stringify sn ind (JBool b) @ rest) = Some (JBool b, rest)"
      using parse_value_atom(2,3) [OF \<open>list_all is_ws w\<close>] by (cases b) simp_all
  qed
next
  case (3 sn ind x)
  show ?case
  proof (intro allI impI)
    fix n w rest
    assume a: "printable sn rn (JNum x)" "need (JNum x) \<le> n" "list_all is_ws w" "boundary rest"
    then obtain m where "n = Suc m" by (cases n) auto
    then show "parse_value rn n (w @ JSON_stringify sn ind (JNum x) @ rest) = Some (JNum x, rest)"
      using parse_value_number [of sn rn x w rest m] a by simp
  qed
next
  case (4 sn ind s)
  show ?case
  proof (intro allI impI)
    fix n w rest
    assume "need (JStr s) \<le> n" "list_all is_ws w"
    then obtain m where "n = Suc m" by (cases n) auto
    then show "parse_value rn n (w @ JSON_stringify sn ind (JStr s) @ rest) = Some (JStr s, rest)"
      using parse_value_atom(4) [OF \<open>list_all is_ws w\<close>] by simp
  qed
next
  case (5 sn ind vs)
  show ?case
  proof (intro allI impI)
    fix n w rest
    assume a: "printable sn rn (JArr vs)" "need (JArr vs) \<le> n" "list_all is_ws w"
    then obtain m where m: "n = Suc m" "need_elems vs \<le> m" by (cases n) auto
    show "parse_value rn n (w @ JSON_stringify sn ind (JArr vs) @ rest) = Some (JArr vs, rest)"
    proof (cases "vs = []")
      case True
      then show ?thesis using parse_value_atom(5) [OF a(3)] m by simp
    next
      case False
      have "parse_elems rn m (newline (ind + 2) @ JSON_stringify_elems sn (ind + 2) vs @
              newline ind @ CHR '']'' # rest) = Some (vs, rest)"
        using 5 [OF False] False a(1) m(2) by (simp add: ws_newline)
      then show ?thesis
        using parse_value_array [OF False _ _ a(3)] a(1) m(1) by simp
    qed
  qed
next
  case (6 sn ind kvs)
  show ?case
  proof (intro allI impI)
    fix n w rest
    assume a: "printable sn rn (JObj kvs)" "need (JObj kvs) \<le> n" "list_all is_ws w"
    then obtain m where m: "n = Suc m" "need_members kvs \<le> m" by (cases n) auto
    show "parse_value rn n (w @ JSON_stringify sn ind (JObj kvs) @ rest) = Some (JObj kvs, rest)"
    proof (cases "kvs = []")
      case True
      then show ?thesis using parse_value_atom(6) [OF a(3)] m by simp
    next
      case False
      have "parse_members rn m (newline (ind + 2) @ JSON_stringify_members sn (ind + 2) kvs @
              newline ind @ CHR ''}'' # rest) = Some (kvs, rest)"
        using 6 [OF False] False a(1) m(2) by (simp add: ws_newline)
      then show ?thesis
        using parse_value_object [OF False _ a(3)] m(1) by simp
    qed
  qed
next
  case (7 sn ind)
  show ?case by simp
next
  case (8 sn ind v vs)
  show ?case
  proof (intro allI impI)
    fix n w w' rest
    assume a: "printable_elems sn rn (v # vs)" "need_elems (v # vs) \<le> n"
      "list_all is_ws w" "list_all is_ws w'"
    then obtain m where m: "n = Suc m" "need v \<le> m" "need_elems vs \<le> m" by (cases n) auto
    have first: "\<And>rest'. boundary rest' \<Longrightarrow>
        parse_value rn m (w @ JSON_stringify sn ind v @ rest') = Some (v, rest')"
      using "8.IH"(1) a(1,3) m(2) by simp
    have others: "vs \<noteq> [] \<Longrightarrow>
        parse_elems rn m (newline ind @ JSON_stringify_elems sn ind vs @ w' @ CHR '']'' # rest) =
          Some (vs, rest)"
      using "8.IH"(2) a(1,4) m(3) by (simp add: ws_newline)
    show "parse_elems rn n (w @ JSON_stringify_elems sn ind (v # vs) @ w' @ CHR '']'' # rest) =
            Some (v # vs, rest)"
      unfolding m(1) using first others a(4) by (rule parse_elems_step)
  qed
next
  case (9 sn ind)
  show ?case by simp
next
  case (10 sn ind k v kvs)
  show ?case
  proof (intro allI impI)
    fix n w w' rest
    assume a: "printable_members sn rn ((k, v) # kvs)" "need_members ((k, v) # kvs) \<le> n"
      "list_all is_ws w" "list_all is_ws w'"
    then obtain m where m: "n = Suc m" "need v \<le> m" "need_members kvs \<le> m"
      by (cases n) auto
    have first: "\<And>rest'. boundary rest' \<Longrightarrow>
        parse_value rn m ([CHR 0x20] @ JSON_stringify sn ind v @ rest') = Some (v, rest')"
      using "10.IH"(1) [rule_format, of m "[CHR 0x20]"] a(1) m(2) by (simp add: is_ws_simps)
    have others: "kvs \<noteq> [] \<Longrightarrow>
        parse_members rn m (newline ind @ JSON_stringify_members sn ind kvs @ w' @
          CHR ''}'' # rest) = Some (kvs, rest)"
      using "10.IH"(2) a(1,4) m(3) by (simp add: ws_newline)
    show "parse_members rn n (w @ JSON_stringify_members sn ind ((k, v) # kvs) @ w' @
            CHR ''}'' # rest) = Some ((k, v) # kvs, rest)"
      unfolding m(1) using first others a(3,4) by (rule parse_members_step)
  qed
qed

lemma need_le_length:
  "printable sn rn j \<longrightarrow> need j \<le> length (JSON_stringify sn ind j)"
  "printable_elems sn rn vs \<longrightarrow> need_elems vs \<le> Suc (length (JSON_stringify_elems sn ind vs))"
  "printable_members sn rn kvs \<longrightarrow>
     need_members kvs \<le> Suc (length (JSON_stringify_members sn ind kvs))"
proof (induction sn ind j and sn ind vs and sn ind kvs
    rule: JSON_stringify_JSON_stringify_elems_JSON_stringify_members.induct)
  case (3 sn ind x)
  show ?case by (cases "sn x") (simp_all add: reads_back_def)
next
  case (5 sn ind vs)
  then show ?case by (auto simp add: newline_def)
next
  case (6 sn ind kvs)
  then show ?case by (auto simp add: newline_def)
next
  case (8 sn ind v vs)
  then show ?case by (auto simp add: newline_def)
next
  case (10 sn ind k v kvs)
  then show ?case by (auto simp add: newline_def quote_def)
qed (simp_all add: quote_def)

lemma JSON_parse_stringify:
  assumes "printable sn rn j"
  shows "JSON_parse rn (JSON_stringify sn 0 j) = Some j"
proof -
  have "need j \<le> Suc (length (JSON_stringify sn 0 j))"
    using need_le_length(1) [of sn rn j 0] assms by simp
  moreover have "boundary []" "list_all is_ws []"
    by (simp_all add: boundary_def)
  ultimately have "parse_value rn (Suc (length (JSON_stringify sn 0 j))) ([] @ JSON_stringify sn 0 j @ []) =
               Some (j, [])"
    using parse_stringify(1) [of sn rn j 0, rule_format,
        of "Suc (length (JSON_stringify sn 0 j))" "[]" "[]"] assms by blast
  then show ?thesis by (simp add: JSON_parse_def skip_ws_def del: parse_value.simps)
qed

text \<open>The record read from the tree of a report is the report.\<close>

lemma field_append:
  "field k (xs @ ys) = (case field k ys of Some v \<Rightarrow> Some v | None \<Rightarrow> field k xs)"
  unfolding field_def by (simp add: map_add_def)

lemma field_append_right: "field k ys = None \<Longrightarrow> field k (xs @ ys) = field k xs"
  by (simp add: field_append)

lemma field_append_left: "field k xs = None \<Longrightarrow> field k (xs @ ys) = field k ys"
  by (simp add: field_append split: option.splits)

lemma field_number_member_other: "k \<noteq> k' \<Longrightarrow> field k (number_member k' x) = None"
  by (cases x) (simp_all add: field_def number_member_def)

lemma field_optional_member_other: "k \<noteq> k' \<Longrightarrow> field k (optional_member k' v) = None"
  by (cases v) (simp_all add: field_def optional_member_def)

lemma field_optional_member: "field k (optional_member k v) = v"
  by (cases v) (simp_all add: field_def optional_member_def)

lemma as_number_member:
  "x \<noteq> NaN \<Longrightarrow> as_number (field k (number_member k x)) = Some x"
  by (cases x) (simp_all add: field_def number_member_def)

lemma as_text_member:
  "as_text (field k (optional_member k (map_option JStr t))) = Some t"
  by (cases t) (simp_all add: field_optional_member)

lemma as_status_member:
  "as_status (field k (optional_member k (map_option (JStr \<circ> status_text) s))) = Some s"
proof (cases s)
  case None
  then show ?thesis by (simp add: field_optional_member)
next
  case (Some a)
  then show ?thesis by (cases a) (simp_all add: field_optional_member)
qed

lemmas field_members =
  field_append_right field_append_left field_number_member_other field_optional_member_other

lemma as_country_data_country_json:
  "nan_free_country c \<Longrightarrow> as_country_data (country_json c) = Some c"
  by (simp add: country_json_def nan_free_country_def field_members as_number_member
      as_text_member as_status_member)

lemma those_country_data:
  "list_all nan_free_country d \<Longrightarrow> those (map (as_country_data \<circ> country_json) d) = Some d"
  by (induction d) (simp_all add: as_country_data_country_json)

lemma those_strings: "those (map (as_string \<circ> JStr) b) = Some b"
  by (induction b) simp_all

lemma as_summary_summary_json:
  "nan_free_summary s \<Longrightarrow> as_summary (Some (summary_json s)) = Some (Some s)"
  by (simp add: summary_json_def nan_free_summary_def field_members as_number_member)

lemma as_result_result_json:
  assumes "nan_free R"
  shows "as_result (result_json R) = Some (Some R)"
proof -
  have s: "as_summary (field k (optional_member k (map_option summary_json (summary R)))) =
           Some (summary R)" for k
    using assms
    by (cases "summary R")
      (simp_all add: nan_free_def as_summary_summary_json field_optional_member)
  have d: "as_list as_country_data
             (field k (optional_member k (map_option (JArr \<circ> map country_json) (details R)))) =
           Some (details R)" for k
    using assms
    by (cases "details R") (simp_all add: nan_free_def those_country_data field_optional_member)
  have b: "as_list as_string (field k (optional_member k (map_option (JArr \<circ> map JStr) l))) =
           Some l" for l k
    by (cases l) (simp_all add: those_strings field_optional_member)
  show ?thesis
    by (simp add: result_json_def field_members s d b)
qed

lemma parse_report_stringify_report:
  assumes "nan_free R" and "printable sn rn (result_json R)"
  shows "parse_report rn (stringify_report sn R) = Some (Some R)"
  using assms
  by (simp add: parse_report_def stringify_report_def JSON_parse_stringify as_result_result_json)

text \<open>The merge example of the specification, exported.\<close>

lemma base_report_printable:
  "printable integer_text integer_value (result_json base_report)"
  by code_simp

lemma base_report_text:
  \<open>stringify_report integer_text base_report =
     concat (map (\<lambda>l. l @ [CHR 0x0A])
       [''{'',
        ''  "summary": {'',
        ''    "totalCost": 100,'',
        ''    "totalRevenue": 150,'',
        ''    "netProfit": 50,'',
        ''    "totalRoi": 50'',
        ''  },'',
        ''  "details": ['',
        ''    {'',
        ''      "country": "India",'',
        ''      "cost": 100,'',
        ''      "revenue": 150,'',
        ''      "profit": 50,'',
        ''      "roi": 50,'',
        ''      "status": "PROFITABLE"'',
        ''    }'',
        ''  ],'',
        ''  "badCountries": [],'',
        ''  "recommendations": ['',
        ''    "Scale India"'',
        ''  ]'']) @ ''}''\<close>
  by code_simp

text \<open>The exported text of the report with escapes, line by line.\<close>

lemma quoted_report_printable:
  "printable integer_text integer_value (result_json quoted_report)"
  by code_simp

lemma quoted_report_text:
  \<open>stringify_report integer_text quoted_report =
     concat (map (\<lambda>l. l @ [CHR 0x0A])
       [''{'',
        ''  "summary": {'',
        ''    "totalCost": 7,'',
        ''    "totalRevenue": 7,'',
        ''    "netProfit": 0'',
        ''  },'',
        ''  "details": ['',
        ''    {'',
        ''      "country": "A '' @ [CHR 0x5C] @ ''"B'' @ [CHR 0x5C] @ ''"'' @
          [CHR 0x5C, CHR 0x5C, CHR 0x5C] @ ''n",'',
        ''      "cost": -5,'',
        ''      "roi": 0'',
        ''    },'',
        ''    {'',
        ''      "cost": 12,'',
        ''      "revenue": 7,'',
        ''      "profit": -5,'',
        ''      "status": "LOSS"'',
        ''    }'',
        ''  ],'',
        ''  "badCountries": ['',
        ''    ""'',
        ''  ],'',
        ''  "recommendations": ['',
        ''    "Block zones {1}; then wait"'',
        ''  ]'']) @ ''}''\<close>
  by code_simp

text \<open>
  The instance for integers meets what is asked of the number conversions: every
  integer is read back from its digits.
\<close>

lemma digits_value_append:
  "digits_value (xs @ ys) acc =
     (case digits_value xs acc of None \<Rightarrow> None | Some a \<Rightarrow> digits_value ys a)"
  by (induction xs arbitrary: acc) (simp_all split: option.splits)

lemma digits_value_digits_of: "digits_value (digits_of n) 0 = Some n"
proof (induction n rule: digits_of.induct)
  case (1 n)
  show ?case
  proof (cases "n < 10")
    case True
    then show ?thesis
      by (subst digits_of.simps) (simp add: hex_value_hex_digit)
  next
    case False
    then have "digits_value (digits_of (n div 10)) 0 = Some (n div 10)"
      by (rule 1)
    then show ?thesis using False
      by (subst digits_of.simps) (simp add: digits_value_append hex_value_hex_digit)
  qed
qed

lemma hex_digit_decimal: "n < 10 \<Longrightarrow> is_num_char (hex_digit n) \<and> hex_digit n \<noteq> CHR ''-''"
proof -
  have "\<forall>n \<in> set [0..<10]. is_num_char (hex_digit n) \<and> hex_digit n \<noteq> CHR ''-''"
    by code_simp
  then show "n < 10 \<Longrightarrow> is_num_char (hex_digit n) \<and> hex_digit n \<noteq> CHR ''-''"
    by simp
qed

lemma digits_of_shape:
  "digits_of n \<noteq> [] \<and> list_all is_num_char (digits_of n) \<and> hd (digits_of n) \<noteq> CHR ''-''"
proof (induction n rule: digits_of.induct)
  case (1 n)
  show ?case
  proof (cases "n < 10")
    case True
    then show ?thesis
      by (subst (1 2 3) digits_of.simps) (simp add: hex_digit_decimal)
  next
    case False
    then have "digits_of (n div 10) \<noteq> [] \<and> list_all is_num_char (digits_of (n div 10)) \<and>
               hd (digits_of (n div 10)) \<noteq> CHR ''-''"
      by (rule 1)
    then show ?thesis using False
      by (subst (1 2 3) digits_of.simps) (simp add: hex_digit_decimal)
  qed
qed

lemma integers_read_back: "reads_back integer_text integer_value (of_int i)"
proof (cases "i < 0")
  case True
  have "digits_value (digits_of (nat (- i))) 0 = Some (nat (- i))"
    by (rule digits_value_digits_of)
  moreover have "is_num_char CHR ''-''"
    by (simp add: is_num_char_def)
  ultimately show ?thesis using True digits_of_shape [of "nat (- i)"]
    by (simp add: reads_back_def integer_text_def integer_value_def)
next
  case False
  obtain c cs where s: "digits_of (nat i) = c # cs" "c \<noteq> CHR ''-''"
    using digits_of_shape [of "nat i"] by (cases "digits_of (nat i)") auto
  have "digits_value (digits_of (nat i)) 0 = Some (nat i)"
    by (rule digits_value_digits_of)
  then show ?thesis using False s digits_of_shape [of "nat i"]
    by (simp add: reads_back_def integer_text_def integer_value_def)
qed

text \<open>
  Claim C6. Let the report have its details, its two advisory lists and its summary,
  let it hold no \<open>NaN\<close>, and let the engine read every number of the report back from
  the digits it writes for it. Then \<open>JSON.parse\<close> gives back the report from the text
  that \<open>handleDownloadJson\<close> writes, ingestion changes nothing in it, and importing the
  exported \<open>.json\<close> file into a session without a result installs the report as it
  was.
\<close>

theorem json_round_trip:
  assumes "details R = Some d" and "badCountries R = Some b"
    and "recommendations R = Some r" and "summary R = Some sm"
    and "nan_free R"
    and "printable sn rn (result_json R)"
    and "ends_with ''.json'' name"
  shows "parse_report rn (handleDownloadJson (stringify_report sn)
             \<lparr>data = R, hiddenCountries = h\<rparr>) = Some (Some R) \<and>
         ingest (Some R) = Some R \<and>
         (result st = None \<longrightarrow>
            handleImportFile (parse_report rn) name
                (handleDownloadJson (stringify_report sn) \<lparr>data = R, hiddenCountries = h\<rparr>) st =
              (st\<lparr>result := Some R, appState := RESULTS\<rparr>, None))"
proof -
  have p: "parse_report rn (stringify_report sn R) = Some (Some R)"
    using assms(5,6) by (rule parse_report_stringify_report)
  have i: "ingest (Some R) = Some R"
    using assms(1-4) by (simp add: ingest_def Let_def)
  show ?thesis
    using p i assms(7) by (simp add: handleImportFile_def handleDownloadJson_def install_def)
qed

theorem json_round_trip_witness:
  "nan_free base_report \<and>
   printable integer_text integer_value (result_json base_report) \<and>
   ends_with ''.json'' ''AdArbitrage-Data-2026-11-03.json'' \<and>
   result fresh_app = None \<and>
   parse_report integer_value (handleDownloadJson (stringify_report integer_text)
       \<lparr>data = base_report, hiddenCountries = []\<rparr>) = Some (Some base_report) \<and>
   ingest (Some base_report) = Some base_report \<and>
   handleImportFile (parse_report integer_value) ''AdArbitrage-Data-2026-11-03.json''
       (handleDownloadJson (stringify_report integer_text)
          \<lparr>data = base_report, hiddenCountries = []\<rparr>)
       fresh_app =
     (fresh_app\<lparr>result := Some base_report, appState := RESULTS\<rparr>, None) \<and>
   nan_free quoted_report \<and>
   printable integer_text integer_value (result_json quoted_report) \<and>
   handleImportFile (parse_report integer_value) ''AdArbitrage-Data-2026-11-03.json''
       (handleDownloadJson (stringify_report integer_text)
          \<lparr>data = quoted_report, hiddenCountries = []\<rparr>)
       fresh_app =
     (fresh_app\<lparr>result := Some quoted_report, appState := RESULTS\<rparr>, None)"
  using json_round_trip [where sn = integer_text and rn = integer_value and R = base_report
      and st = fresh_app and h = "[]" and name = "''AdArbitrage-Data-2026-11-03.json''"]
    json_round_trip [where sn = integer_text and rn = integer_value and R = quoted_report
      and st = fresh_app and h = "[]" and name = "''AdArbitrage-Data-2026-11-03.json''"]
    base_report_printable quoted_report_printable
  by (simp add: base_report_def quoted_report_def fresh_app_def ends_with_def nan_free_def
      nan_free_summary_def nan_free_country_def)

lemma brace_capture:
  "match_DATA (html_document brace_payload_text) = Some brace_captured_text"
proof -
  have "brace_payload_text = CHR ''{'' # tl brace_payload_text"
    by (simp add: brace_payload_text_def)
  then have "match_DATA (html_document brace_payload_text) =
     map_option (\<lambda>b. ''{'' @ b @ ''}'')
       (take_until ''};'' (tl brace_payload_text @ '';\<newline>'' @ concat html_tail_lines))"
    using match_DATA_document [of "tl brace_payload_text"] by simp
  then show ?thesis
    by (simp add: brace_payload_text_def brace_captured_text_def)
qed

text \<open>
  Claim C7 does not hold for every report. A recommendation that contains \<open>};\<close> ends
  the lazy pattern inside the payload: the captured text is a proper part of the
  exported JSON, and when \<open>JSON.parse\<close> rejects it (it ends inside a string literal)
  the import shows "Failed to load report" and leaves the state as it was.
\<close>

theorem html_import_cut_short:
  assumes "stringify (html_payload \<lparr>data = brace_report, hiddenCountries = h\<rparr>) generatedAt =
             brace_payload_text"
    and "parse brace_captured_text = None"
    and "ends_with ''.html'' name" and "\<not> ends_with ''.json'' name"
  shows "match_DATA (handleDownloadHtml stringify generatedAt
             \<lparr>data = brace_report, hiddenCountries = h\<rparr>) = Some brace_captured_text \<and>
         brace_captured_text \<noteq> brace_payload_text \<and>
         handleImportFile parse name
             (handleDownloadHtml stringify generatedAt
                \<lparr>data = brace_report, hiddenCountries = h\<rparr>) st =
           (st, Some LoadFailed)"
proof -
  have "length brace_captured_text \<noteq> length brace_payload_text"
    by (simp add: brace_captured_text_def brace_payload_text_def)
  then have "brace_captured_text \<noteq> brace_payload_text" by auto
  then show ?thesis
    using assms by (simp add: handleDownloadHtml_def handleImportFile_def brace_capture)
qed

theorem html_import_cut_short_witness:
  "ends_with ''.html'' ''AdArbitrage-Interactive-2026-11-03.html'' \<and>
   \<not> ends_with ''.json'' ''AdArbitrage-Interactive-2026-11-03.html'' \<and>
   handleImportFile (\<lambda>t. None) ''AdArbitrage-Interactive-2026-11-03.html''
       (handleDownloadHtml (\<lambda>x g. brace_payload_text) ''11/3/2026, 7:23:00 AM''
          \<lparr>data = brace_report, hiddenCountries = []\<rparr>) fresh_app =
     (fresh_app, Some LoadFailed)"
  using html_import_cut_short [where stringify = "\<lambda>x g. brace_payload_text"
      and parse = "\<lambda>t. None" and name = "''AdArbitrage-Interactive-2026-11-03.html''"
      and h = "[]" and generatedAt = "''11/3/2026, 7:23:00 AM''" and st = fresh_app]
  by (simp add: ends_with_def)

end
